theory Spec2Isabelle
  imports Complex_Main
begin

section \<open>JavaScript values, strings and numbers\<close>

text \<open>
  The handlers work on JavaScript strings and numbers. A string is modelled as a
  \<^typ>\<open>string\<close> holding the bytes of its UTF-8 encoding, so an ASCII character is one
  \<^typ>\<open>char\<close>. A number is \<open>NaN\<close> or \<open>Num n\<close>, the double whose value is the integer
  \<open>n\<close>; \<open>Num (2 ^ 1024)\<close> and \<open>Num (- (2 ^ 1024))\<close> stand for the two infinities, which lie
  beyond every finite double. The numbers the modelled code handles are counters,
  epoch times, parsed parameters and rounded temperatures. \<open>parseInt\<close> rounds to the
  nearest double; the rounding of sums and products beyond \<open>2^53\<close> is not modelled.
\<close>

datatype number = NaN | Num int

datatype jsval = JUndefined | JNull | JBool bool | JNumber number | JStr string

text \<open>JavaScript truthiness.\<close>

fun truthy_num :: "number \<Rightarrow> bool" where
  "truthy_num NaN = False"
| "truthy_num (Num n) = (n \<noteq> 0)"

fun truthy :: "jsval \<Rightarrow> bool" where
  "truthy JUndefined = False"
| "truthy JNull = False"
| "truthy (JBool b) = b"
| "truthy (JNumber n) = truthy_num n"
| "truthy (JStr s) = (s \<noteq> [])"

text \<open>Comparisons and addition on numbers: every comparison with \<open>NaN\<close> is false.\<close>

fun num_ge :: "number \<Rightarrow> number \<Rightarrow> bool" where
  "num_ge (Num a) (Num b) = (a \<ge> b)"
| "num_ge _ _ = False"

fun num_gt :: "number \<Rightarrow> number \<Rightarrow> bool" where
  "num_gt (Num a) (Num b) = (a > b)"
| "num_gt _ _ = False"

fun num_lt :: "number \<Rightarrow> number \<Rightarrow> bool" where
  "num_lt (Num a) (Num b) = (a < b)"
| "num_lt _ _ = False"

fun num_add :: "number \<Rightarrow> number \<Rightarrow> number" where
  "num_add (Num a) (Num b) = Num (a + b)"
| "num_add _ _ = NaN"

fun num_mul :: "number \<Rightarrow> number \<Rightarrow> number" where
  "num_mul (Num a) (Num b) = Num (a * b)"
| "num_mul _ _ = NaN"

text \<open>\<open>Math.min\<close> on two numbers.\<close>

fun num_min :: "number \<Rightarrow> number \<Rightarrow> number" where
  "num_min (Num a) (Num b) = Num (min a b)"
| "num_min _ _ = NaN"

text \<open>\<open>x || d\<close> on a plain integer: zero is falsy.\<close>

definition or_num :: "int \<Rightarrow> int \<Rightarrow> int" where
  "or_num x d = (if x = 0 then d else x)"

text \<open>\<open>s || d\<close> on a string: the empty string is falsy.\<close>

definition or_str :: "string \<Rightarrow> string \<Rightarrow> string" where
  "or_str s d = (if s = [] then d else s)"

text \<open>\<open>Math.round\<close>: the nearest integer, halves rounded up.\<close>

definition math_round :: "rat \<Rightarrow> int" where
  "math_round x = \<lfloor>x + 1 / 2\<rfloor>"

subsection \<open>String operations\<close>

text \<open>\<open>toLowerCase\<close> maps the upper-case letters to lower case and keeps every other character.\<close>

definition toLowerChar :: "char \<Rightarrow> char" where
  "toLowerChar c =
     (case map_of (zip ''ABCDEFGHIJKLMNOPQRSTUVWXYZ'' ''abcdefghijklmnopqrstuvwxyz'') c of
        Some l \<Rightarrow> l
      | None \<Rightarrow> c)"

definition toLowerCase :: "string \<Rightarrow> string" where
  "toLowerCase s = map toLowerChar s"

fun startsWith :: "string \<Rightarrow> string \<Rightarrow> bool" where
  "startsWith s [] = True"
| "startsWith [] (p # ps) = False"
| "startsWith (c # cs) (p # ps) = (c = p \<and> startsWith cs ps)"

text \<open>\<open>s.includes(p)\<close>: \<open>p\<close> occurs in \<open>s\<close> as a contiguous substring.\<close>

fun str_includes :: "string \<Rightarrow> string \<Rightarrow> bool" where
  "str_includes [] p = (p = [])"
| "str_includes (c # cs) p = (startsWith (c # cs) p \<or> str_includes cs p)"

subsection \<open>\<open>parseInt\<close>\<close>

text \<open>
  \<open>parseInt(string, radix)\<close>: leading white space is skipped, a sign is read, with no
  radix (or radix 16) a prefix \<open>0x\<close> selects base 16, and the longest prefix of digits
  of the base is converted and rounded to the nearest double; no digit at all gives
  \<open>NaN\<close>. Whatever follows the digits is ignored. The modelled code passes radix 10 or
  none.
\<close>

text \<open>
  White space is tab, line feed, vertical tab, form feed, carriage return, space and,
  in UTF-8, the no-break space \<open>C2 A0\<close> and the three-byte encodings of U+1680,
  U+2000 to U+200A, U+2028, U+2029, U+202F, U+205F, U+3000 and U+FEFF. A byte \<open>A0\<close>
  standing alone is read as the no-break space as well.
\<close>

definition is_ws3 :: "nat \<Rightarrow> nat \<Rightarrow> nat \<Rightarrow> bool" where
  "is_ws3 b0 b1 b2 =
     (b0 = 225 \<and> b1 = 154 \<and> b2 = 128
      \<or> b0 = 226 \<and> b1 = 128
          \<and> (128 \<le> b2 \<and> b2 \<le> 138 \<or> b2 = 168 \<or> b2 = 169 \<or> b2 = 175)
      \<or> b0 = 226 \<and> b1 = 129 \<and> b2 = 159
      \<or> b0 = 227 \<and> b1 = 128 \<and> b2 = 128
      \<or> b0 = 239 \<and> b1 = 187 \<and> b2 = 191)"

text \<open>The number of bytes of the white space character a string starts with, or 0.\<close>

definition whiteSpacePrefix :: "string \<Rightarrow> nat" where
  "whiteSpacePrefix s =
     (case map of_char s of
        [] \<Rightarrow> 0
      | b0 # rest \<Rightarrow>
          if b0 \<in> {9, 10, 11, 12, 13, 32, 160 :: nat} then 1
          else (case rest of
                  [] \<Rightarrow> 0
                | b1 # rest' \<Rightarrow>
                    if b0 = 194 \<and> b1 = 160 then 2
                    else (case rest' of
                            [] \<Rightarrow> 0
                          | b2 # _ \<Rightarrow> if is_ws3 b0 b1 b2 then 3 else 0)))"

function skipWhiteSpace :: "string \<Rightarrow> string" where
  "skipWhiteSpace [] = []"
| "skipWhiteSpace (c # cs) =
     (if whiteSpacePrefix (c # cs) = 0 then c # cs
      else skipWhiteSpace (drop (whiteSpacePrefix (c # cs) - 1) cs))"
  by pat_completeness auto
termination
  by (relation "measure length") auto

definition digitVal :: "char \<Rightarrow> nat option" where
  "digitVal c =
     (let n = (of_char c :: nat) in
      if 48 \<le> n \<and> n \<le> 57 then Some (n - 48)
      else if 97 \<le> n \<and> n \<le> 122 then Some (n - 87)
      else if 65 \<le> n \<and> n \<le> 90 then Some (n - 55)
      else None)"

definition isDigitIn :: "nat \<Rightarrow> char \<Rightarrow> bool" where
  "isDigitIn R c = (case digitVal c of Some d \<Rightarrow> d < R | None \<Rightarrow> False)"

fun digitsValue :: "nat \<Rightarrow> int \<Rightarrow> string \<Rightarrow> int" where
  "digitsValue R acc [] = acc"
| "digitsValue R acc (c # cs) =
     digitsValue R (acc * int R + (case digitVal c of Some d \<Rightarrow> int d | None \<Rightarrow> 0)) cs"

text \<open>
  The double nearest to a non-negative integer, ties to the even significand: below
  \<open>2^53\<close> the integer itself; above, the 53 leading bits rounded by the bits dropped;
  \<open>2^1024\<close> (infinity) once the rounded value reaches it.
\<close>

function bit_length :: "int \<Rightarrow> nat" where
  "bit_length n = (if n \<le> 0 then 0 else Suc (bit_length (n div 2)))"
  by pat_completeness auto
termination
  by (relation "measure nat") auto

declare bit_length.simps [simp del]

definition round_to_double :: "int \<Rightarrow> int" where
  "round_to_double m =
     (if m < 2 ^ 53 then m
      else
        let k = bit_length m - 53;
            q = m div 2 ^ k;
            r = m mod 2 ^ k;
            q' = (if 2 * r > 2 ^ k \<or> (2 * r = 2 ^ k \<and> odd q) then q + 1 else q)
        in if q' * 2 ^ k \<ge> 2 ^ 1024 then 2 ^ 1024 else q' * 2 ^ k)"

definition readSign :: "string \<Rightarrow> int \<times> string" where
  "readSign s =
     (case s of
        [] \<Rightarrow> (1, [])
      | c # cs \<Rightarrow> if c = CHR ''-'' then (-1, cs) else if c = CHR ''+'' then (1, cs) else (1, s))"

definition parseInt :: "nat option \<Rightarrow> string \<Rightarrow> number" where
  "parseInt radix str =
     (let (sign, s1) = readSign (skipWhiteSpace str);
          hex = ((radix = None \<or> radix = Some 16)
                 \<and> (startsWith s1 ''0x'' \<or> startsWith s1 ''0X''));
          R = (if hex then 16 else case radix of None \<Rightarrow> 10 | Some r \<Rightarrow> r);
          s2 = (if hex then drop 2 s1 else s1);
          Z = takeWhile (isDigitIn R) s2
      in if Z = [] then NaN else Num (sign * round_to_double (digitsValue R 0 Z)))"

text \<open>
  \<open>parseInt(v, 10)\<close> on a value read back from the store: the value is converted to a
  string first, so an integer number parses to itself and \<open>undefined\<close>, \<open>null\<close>, booleans
  and \<open>NaN\<close> give \<open>NaN\<close>.
\<close>

fun parseInt_val :: "jsval \<Rightarrow> number" where
  "parseInt_val (JStr s) = parseInt (Some 10) s"
| "parseInt_val (JNumber n) = n"
| "parseInt_val _ = NaN"

subsection \<open>Numbers as strings\<close>

text \<open>Template literals print a number in decimal, \<open>NaN\<close> as \<open>NaN\<close>.\<close>

fun show_nat :: "nat \<Rightarrow> string" where
  "show_nat n =
     (if n < 10 then [''0123456789'' ! n]
      else show_nat (n div 10) @ [''0123456789'' ! (n mod 10)])"

declare show_nat.simps [simp del]

definition show_int :: "int \<Rightarrow> string" where
  "show_int i = (if i < 0 then CHR ''-'' # show_nat (nat (- i)) else show_nat (nat i))"

fun show_number :: "number \<Rightarrow> string" where
  "show_number NaN = ''NaN''"
| "show_number (Num n) = show_int n"

section \<open>Data model\<close>

text \<open>
  The normalized upstream data (\<open>types/api.ts\<close>), restricted to the fields the fusion
  handler reads. Heights and masses are \<open>number | null\<close>.
\<close>

record NormalizedCharacter =
  ch_id :: string
  ch_name :: string
  ch_height :: "rat option"
  ch_mass :: "rat option"
  ch_hairColor :: string
  ch_eyeColor :: string
  ch_birthYear :: string
  ch_gender :: string
  ch_homeworld_id :: string

record NormalizedPlanet =
  pl_id :: string
  pl_name :: string
  pl_climate :: "string list"
  pl_terrain :: "string list"

text \<open>The OpenWeatherMap response, with the optional parts the normalizer guards.\<close>

record OpenWeatherResponse =
  ow_name :: string
  ow_country :: "string option"
  ow_temp :: rat
  ow_feels_like :: rat
  ow_humidity :: int
  ow_pressure :: int
  ow_wind_speed :: "rat option"
  ow_description :: "string option"

record NormalizedWeather =
  nw_name :: string
  nw_country :: string
  nw_temperature :: int
  nw_feelsLike :: int
  nw_humidity :: int
  nw_pressure :: int
  nw_windSpeed :: int
  nw_description :: string
  nw_source :: string
  nw_isFallback :: bool

text \<open>What an HTTP call throws: \<open>error.code\<close>, \<open>error.message\<close>, \<open>error.response?.status\<close>.\<close>

record http_error =
  err_code :: string
  err_message :: string
  err_status :: "nat option"

record call_error =
  ce_code :: string
  ce_message :: string
  ce_status :: "nat option"

record 'a ApiCallResult =
  acr_success :: bool
  acr_data :: "'a option"
  acr_error :: "call_error option"
  acr_duration :: int
  acr_warning :: "string option"

subsection \<open>The fused result\<close>

record character_view =
  cv_id :: string
  cv_name :: string
  cv_height :: "rat option"
  cv_mass :: "rat option"
  cv_hairColor :: string
  cv_eyeColor :: string
  cv_birthYear :: string
  cv_gender :: string

record planet_data =
  pd_id :: string
  pd_name :: string
  pd_climate :: string
  pd_terrain :: string

record weather_view =
  wv_location :: string
  wv_country :: string
  wv_temperature :: int
  wv_feelsLike :: int
  wv_humidity :: int
  wv_pressure :: int
  wv_windSpeed :: int
  wv_conditions :: string
  wv_source :: string
  wv_isFallback :: bool

text \<open>
  \<open>weatherData\<close> in the handler is either the placeholder
  \<open>{status, message, source}\<close> or the object filled from a successful weather result.
\<close>

datatype weather_data =
  WeatherPlaceholder string string string
| WeatherFilled weather_view

fun wd_source :: "weather_data \<Rightarrow> string" where
  "wd_source (WeatherPlaceholder st msg src) = src"
| "wd_source (WeatherFilled v) = wv_source v"

text \<open>Fields the placeholder does not have read as \<open>undefined\<close> (\<open>None\<close>).\<close>

fun wd_temperature :: "weather_data \<Rightarrow> int option" where
  "wd_temperature (WeatherPlaceholder st msg src) = None"
| "wd_temperature (WeatherFilled v) = Some (wv_temperature v)"

fun wd_humidity :: "weather_data \<Rightarrow> int option" where
  "wd_humidity (WeatherPlaceholder st msg src) = None"
| "wd_humidity (WeatherFilled v) = Some (wv_humidity v)"

fun wd_conditions :: "weather_data \<Rightarrow> string option" where
  "wd_conditions (WeatherPlaceholder st msg src) = None"
| "wd_conditions (WeatherFilled v) = Some (wv_conditions v)"

record data_quality =
  dq_character :: string
  dq_planet :: string
  dq_weather :: string

record fusion_part =
  fu_summary :: string
  fu_compatibility :: string
  fu_dataQuality :: data_quality

record fusion_meta =
  fm_source :: string
  fm_requestId :: string
  fm_version :: string
  fm_time_character :: int
  fm_time_planet :: int
  fm_time_weather :: int

record fusion_data =
  fd_character :: character_view
  fd_homeworld :: planet_data
  fd_weather :: weather_data
  fd_fusion :: fusion_part
  fd_meta :: fusion_meta

subsection \<open>History records\<close>

record FusionDataRecord =
  fr_id :: string
  fr_characterId :: string
  fr_data :: fusion_data
  fr_timestamp :: int
  fr_ttl :: int
  fr_source :: string
  fr_requestId :: string
  fr_processingTime :: int
  fr_cached :: bool

record CustomDataRecord =
  cr_id :: string
  cr_data :: jsval
  cr_timestamp :: int
  cr_source :: string
  cr_requestId :: string

datatype history_record = FusionRec FusionDataRecord | CustomRec CustomDataRecord

text \<open>An item of the main table: partition key, sort key and the record.\<close>

record db_item =
  di_pk :: string
  di_sk :: string
  di_record :: history_record

record HistoryQueryOptions =
  hq_limit :: int
  hq_lastEvaluatedKey :: "string option"
  hq_source :: string
  hq_startTime :: "number option"
  hq_endTime :: "number option"

record PaginatedResult =
  pr_items :: "history_record list"
  pr_lastEvaluatedKey :: "string option"
  pr_count :: int
  pr_scannedCount :: "int option"

record history_response =
  hr_items :: "history_record list"
  hr_limit :: int
  hr_count :: int
  hr_hasNext :: bool
  hr_nextCursor :: "string option"
  hr_scannedCount :: "int option"
  hr_filter_source :: string
  hr_filter_startTime :: "number option"
  hr_filter_endTime :: "number option"

subsection \<open>Cached values, responses, events\<close>

text \<open>
  A value of the cache table (\<open>any\<close> in the source): a fused result, a rate-limit counter
  object \<open>{count: v}\<close>, or a primitive. \<open>null\<close> is \<open>Prim JNull\<close>.
\<close>

datatype payload =
  FusionObj fusion_data
| CounterObj jsval
| Prim jsval
| HistoryObj history_response

fun truthy_payload :: "payload \<Rightarrow> bool" where
  "truthy_payload (Prim v) = truthy v"
| "truthy_payload _ = True"

text \<open>\<open>cachedData.count\<close>: only the counter object has the property.\<close>

fun count_field :: "payload \<Rightarrow> jsval" where
  "count_field (CounterObj v) = v"
| "count_field _ = JUndefined"

type_synonym js_object = "(string \<times> jsval) list"

fun obj_set :: "string \<Rightarrow> jsval \<Rightarrow> js_object \<Rightarrow> js_object" where
  "obj_set k v [] = [(k, v)]"
| "obj_set k v ((k', v') # kvs) =
     (if k = k' then (k, v) # kvs else (k', v') # obj_set k v kvs)"

text \<open>Object spread \<open>{...base, ...extra}\<close>: the later properties override.\<close>

fun obj_spread :: "js_object \<Rightarrow> js_object \<Rightarrow> js_object" where
  "obj_spread base [] = base"
| "obj_spread base ((k, v) # kvs) = obj_spread (obj_set k v base) kvs"

text \<open>
  The body of a response is kept structured (the source serializes it with
  \<open>JSON.stringify\<close>); the fixed CORS and security headers and the optional error
  details are not modelled. The \<open>timestamp\<close> of the envelope is the clock reading.
\<close>

datatype response_body =
  SuccessBody payload js_object
| ErrorBody string string js_object

record response =
  statusCode :: nat
  body :: response_body

record event =
  queryStringParameters :: "(string \<rightharpoonup> string) option"
  requestId :: string
  path :: string
  httpMethod :: string
  sourceIp :: "string option"

text \<open>\<open>event.queryStringParameters?.name\<close>\<close>

definition query_param :: "event \<Rightarrow> string \<Rightarrow> string option" where
  "query_param ev name =
     (case queryStringParameters ev of None \<Rightarrow> None | Some m \<Rightarrow> m name)"

section \<open>The outside world\<close>

text \<open>
  Everything a request observes from outside the process is a field of \<open>env\<close>: the
  clock, the process environment, what the upstream HTTP services answer, how long
  each call took, the pseudo-random draws, the fresh identifier, and whether a call
  to the key-value store or to the history table fails. \<open>swept\<close> tells which expired
  cache items the store's background expiry has deleted by the time of the request.
\<close>

record env =
  now :: int
  apiKey :: string
  http_people :: "string \<Rightarrow> http_error + NormalizedCharacter"
  http_planets :: "string \<Rightarrow> http_error + NormalizedPlanet"
  http_weather :: "string \<Rightarrow> http_error + OpenWeatherResponse"
  people_ms :: int
  planets_ms :: int
  weather_ms :: int
  random :: "nat \<Rightarrow> rat"
  uuid :: string
  cache_get_fails :: "string \<Rightarrow> bool"
  cache_put_fails :: "string \<Rightarrow> bool"
  db_put_fails :: bool
  db_scan :: "HistoryQueryOptions \<Rightarrow> string + PaginatedResult"
  RATE_LIMIT_REQUESTS :: "string option"
  RATE_LIMIT_WINDOW_MINUTES :: "string option"
  swept :: "string \<Rightarrow> bool"

text \<open>
  The state shared between requests: the cache table, the history table, and the log
  of the upstream requests and history scans issued so far.
\<close>

datatype call =
  GetPeople string
| GetPlanet string
| GetWeather string
| ScanHistory HistoryQueryOptions

record cache_item =
  ci_value :: payload
  ci_ttl :: int
  ci_createdAt :: int

record world =
  cacheTable :: "string \<rightharpoonup> cache_item"
  historyTable :: "db_item list"
  calls :: "call list"

text \<open>
  The store deletes an item some time after its \<open>ttl\<close> (epoch seconds) has passed, never
  before; until then a read still returns it.
\<close>

definition expired :: "int \<Rightarrow> cache_item \<Rightarrow> bool" where
  "expired now_ms item = (ci_ttl item \<le> now_ms div 1000)"

definition ttl_sweep :: "int \<Rightarrow> (string \<Rightarrow> bool) \<Rightarrow> world \<Rightarrow> world" where
  "ttl_sweep now_ms sel w =
     w\<lparr>cacheTable :=
         (\<lambda>k. case cacheTable w k of
                None \<Rightarrow> None
              | Some item \<Rightarrow> if expired now_ms item \<and> sel k then None else Some item)\<rparr>"

section \<open>Response utilities (\<open>utils/response.ts\<close>)\<close>

definition envelope_meta :: "env \<Rightarrow> string \<Rightarrow> js_object" where
  "envelope_meta e rid =
     [(''timestamp'', JNumber (Num (now e))), (''requestId'', JStr rid),
      (''version'', JStr ''1.0.0'')]"

definition success :: "env \<Rightarrow> payload \<Rightarrow> string \<Rightarrow> bool \<Rightarrow> js_object \<Rightarrow> response" where
  "success e d rid cached meta =
     \<lparr>statusCode = 200,
      body = SuccessBody d
               (obj_spread (envelope_meta e rid @ [(''cached'', JBool cached)]) meta)\<rparr>"

definition badRequest :: "env \<Rightarrow> string \<Rightarrow> string \<Rightarrow> response" where
  "badRequest e message rid =
     \<lparr>statusCode = 400, body = ErrorBody ''BAD_REQUEST'' message (envelope_meta e rid)\<rparr>"

definition tooManyRequests :: "env \<Rightarrow> string \<Rightarrow> string \<Rightarrow> response" where
  "tooManyRequests e message rid =
     \<lparr>statusCode = 429,
      body = ErrorBody ''RATE_LIMIT_EXCEEDED'' message (envelope_meta e rid)\<rparr>"

definition internalError :: "env \<Rightarrow> string \<Rightarrow> string \<Rightarrow> response" where
  "internalError e message rid =
     \<lparr>statusCode = 500, body = ErrorBody ''INTERNAL_ERROR'' message (envelope_meta e rid)\<rparr>"

section \<open>Cache service (\<open>services/cacheService.ts\<close>)\<close>

text \<open>
  The SDK's \<open>marshall\<close> throws on \<open>NaN\<close> and on \<open>undefined\<close>; inside \<open>set\<close> that error is
  caught like a failed store call.
\<close>

fun marshallable :: "payload \<Rightarrow> bool" where
  "marshallable (CounterObj v) = (v \<noteq> JNumber NaN \<and> v \<noteq> JUndefined)"
| "marshallable (Prim v) = (v \<noteq> JNumber NaN \<and> v \<noteq> JUndefined)"
| "marshallable _ = True"

definition FUSIONED_DATA_TTL :: int where
  "FUSIONED_DATA_TTL = 1800"

text \<open>
  \<open>set\<close>: the expiry is \<open>floor(now / 1000) + ttlSeconds\<close>; a failure of the put (or of
  the serialization) is logged and swallowed, leaving the table as it was.
\<close>

definition cache_set :: "env \<Rightarrow> string \<Rightarrow> payload \<Rightarrow> number \<Rightarrow> world \<Rightarrow> world" where
  "cache_set e key d ttlSeconds w =
     (case num_add (Num (now e div 1000)) ttlSeconds of
        NaN \<Rightarrow> w
      | Num ttl \<Rightarrow>
          if \<not> marshallable d \<or> cache_put_fails e key then w
          else w\<lparr>cacheTable := (cacheTable w)
                   (key \<mapsto> \<lparr>ci_value = d, ci_ttl = ttl, ci_createdAt = now e\<rparr>)\<rparr>)"

text \<open>
  \<open>get\<close>: \<open>null\<close> when the store call fails or returns no item, the item's value
  otherwise. The item's \<open>ttl\<close> is not read.
\<close>

definition cache_get :: "env \<Rightarrow> string \<Rightarrow> world \<Rightarrow> payload" where
  "cache_get e key w =
     (if cache_get_fails e key then Prim JNull
      else case cacheTable w key of
             None \<Rightarrow> Prim JNull
           | Some item \<Rightarrow> ci_value item)"

definition fusionKey :: "string \<Rightarrow> string" where
  "fusionKey characterId = ''fusioned:'' @ characterId"

section \<open>SWAPI service (\<open>services/swapiService.ts\<close>)\<close>

definition swapi_getErrorCode :: "http_error \<Rightarrow> string" where
  "swapi_getErrorCode err =
     (if err_code err = ''ECONNABORTED'' \<or> err_code err = ''ETIMEDOUT'' then ''SWAPI_TIMEOUT''
      else if err_status err = Some 404 then ''SWAPI_NOT_FOUND''
      else if (case err_status err of Some st \<Rightarrow> st \<ge> 500 | None \<Rightarrow> False)
           then ''SWAPI_SERVER_ERROR''
      else ''SWAPI_ERROR'')"

text \<open>
  \<open>getCharacter\<close> and \<open>getPlanet\<close> issue one HTTP request; \<open>http_people\<close> and
  \<open>http_planets\<close> give the normalized answer or the error thrown, and every error
  becomes a result with \<open>success = false\<close>.
\<close>

definition getCharacter ::
  "env \<Rightarrow> string \<Rightarrow> world \<Rightarrow> NormalizedCharacter ApiCallResult \<times> world" where
  "getCharacter e characterId w =
     (let w' = w\<lparr>calls := calls w @ [GetPeople characterId]\<rparr> in
      case http_people e characterId of
        Inr c \<Rightarrow>
          (\<lparr>acr_success = True, acr_data = Some (c\<lparr>ch_id := characterId\<rparr>),
            acr_error = None, acr_duration = people_ms e, acr_warning = None\<rparr>, w')
      | Inl err \<Rightarrow>
          (\<lparr>acr_success = False, acr_data = None,
            acr_error = Some \<lparr>ce_code = swapi_getErrorCode err,
                              ce_message = ''Failed to fetch character '' @ characterId
                                           @ '': '' @ err_message err,
                              ce_status = err_status err\<rparr>,
            acr_duration = people_ms e, acr_warning = None\<rparr>, w'))"

definition getPlanet ::
  "env \<Rightarrow> string \<Rightarrow> world \<Rightarrow> NormalizedPlanet ApiCallResult \<times> world" where
  "getPlanet e planetId w =
     (let w' = w\<lparr>calls := calls w @ [GetPlanet planetId]\<rparr> in
      case http_planets e planetId of
        Inr p \<Rightarrow>
          (\<lparr>acr_success = True, acr_data = Some (p\<lparr>pl_id := planetId\<rparr>),
            acr_error = None, acr_duration = planets_ms e, acr_warning = None\<rparr>, w')
      | Inl err \<Rightarrow>
          (\<lparr>acr_success = False, acr_data = None,
            acr_error = Some \<lparr>ce_code = swapi_getErrorCode err,
                              ce_message = ''Failed to fetch planet '' @ planetId
                                           @ '': '' @ err_message err,
                              ce_status = err_status err\<rparr>,
            acr_duration = planets_ms e, acr_warning = None\<rparr>, w'))"

section \<open>Weather service\<close>

definition planetLocationMap :: "(string \<times> string) list" where
  "planetLocationMap =
     [(''Tatooine'', ''Tucson,US''), (''Alderaan'', ''Geneva,CH''),
      (''Yavin IV'', ''Manaus,BR''), (''Hoth'', ''Anchorage,US''),
      (''Dagobah'', ''New Orleans,US''), (''Bespin'', ''Denver,US''),
      (''Endor'', ''Vancouver,CA''), (''Naboo'', ''Rome,IT''),
      (''Coruscant'', ''New York,US''), (''Kamino'', ''Reykjavik,IS'')]"

text \<open>
  The lookup in the location table, with the default for a planet it does not list
  (the members a JavaScript object inherits, such as \<open>constructor\<close>, are not modelled
  as planet names).
\<close>

definition mapPlanetToLocation :: "string \<Rightarrow> string" where
  "mapPlanetToLocation planetName =
     (case map_of planetLocationMap planetName of
        Some loc \<Rightarrow> loc
      | None \<Rightarrow> ''London,UK'')"

text \<open>
  The simulated weather: the numbers come from successive \<open>Math.random()\<close> draws (the
  fifth, seventh and eighth fill fields the handler never reads), and the result is
  reported as a success carrying a warning.
\<close>

definition getMockWeatherData ::
  "env \<Rightarrow> string \<Rightarrow> int \<Rightarrow> NormalizedWeather ApiCallResult" where
  "getMockWeatherData e planetName d =
     \<lparr>acr_success = True,
      acr_data = Some
        \<lparr>nw_name = planetName,
         nw_country = ''Galaxy Far Far Away'',
         nw_temperature = math_round (random e 0 * 40 - 10),
         nw_feelsLike = math_round (random e 1 * 40 - 10),
         nw_humidity = math_round (random e 2 * 100),
         nw_pressure = math_round (1000 + random e 3 * 50),
         nw_windSpeed = math_round (random e 5 * 20),
         nw_description = ''Simulated weather conditions'',
         nw_source = ''MOCK_DATA'',
         nw_isFallback = True\<rparr>,
      acr_error = None,
      acr_duration = d,
      acr_warning = Some ''Using mock weather data - API unavailable''\<rparr>"

definition normalizeWeather :: "OpenWeatherResponse \<Rightarrow> string \<Rightarrow> NormalizedWeather" where
  "normalizeWeather weather planetName =
     \<lparr>nw_name = or_str (ow_name weather) planetName,
      nw_country = (case ow_country weather of Some c \<Rightarrow> or_str c ''Unknown''
                                             | None \<Rightarrow> ''Unknown''),
      nw_temperature = math_round (ow_temp weather),
      nw_feelsLike = math_round (ow_feels_like weather),
      nw_humidity = ow_humidity weather,
      nw_pressure = ow_pressure weather,
      nw_windSpeed = math_round ((case ow_wind_speed weather of Some v \<Rightarrow> v | None \<Rightarrow> 0)
                                 * (36 / 10)),
      nw_description = (case ow_description weather of
                          Some d \<Rightarrow> or_str d ''No description''
                        | None \<Rightarrow> ''No description''),
      nw_source = ''OPENWEATHERMAP'',
      nw_isFallback = False\<rparr>"

text \<open>
  \<open>getWeatherByPlanet\<close>: without an API key no request is made; a failed request (or
  a failed normalization) falls back to the simulated data.
\<close>

definition getWeatherByPlanet ::
  "env \<Rightarrow> string \<Rightarrow> world \<Rightarrow> NormalizedWeather ApiCallResult \<times> world" where
  "getWeatherByPlanet e planetName w =
     (let location = mapPlanetToLocation planetName in
      if apiKey e = [] then (getMockWeatherData e planetName (weather_ms e), w)
      else
        let w' = w\<lparr>calls := calls w @ [GetWeather location]\<rparr> in
        case http_weather e location of
          Inr resp \<Rightarrow>
            (\<lparr>acr_success = True, acr_data = Some (normalizeWeather resp planetName),
              acr_error = None, acr_duration = weather_ms e, acr_warning = None\<rparr>, w')
        | Inl err \<Rightarrow> (getMockWeatherData e planetName (weather_ms e), w'))"

section \<open>Database service: storing a fusion record\<close>

text \<open>
  \<open>storeFusionData\<close> puts one item under a fresh identifier, so the put adds a row; a
  failed put is rethrown to the caller (\<open>Inl\<close>).
\<close>

definition storeFusionData ::
  "env \<Rightarrow> string \<Rightarrow> fusion_data \<Rightarrow> string \<Rightarrow> int \<Rightarrow> world
     \<Rightarrow> (string + FusionDataRecord) \<times> world" where
  "storeFusionData e characterId d rid processingTime w =
     (let timestamp = now e;
          ident = uuid e;
          record = \<lparr>fr_id = ident, fr_characterId = characterId, fr_data = d,
                    fr_timestamp = timestamp,
                    fr_ttl = now e div 1000 + FUSIONED_DATA_TTL,
                    fr_source = ''fusion'', fr_requestId = rid,
                    fr_processingTime = processingTime, fr_cached = False\<rparr>;
          item = \<lparr>di_pk = ''FUSIONED#'' @ characterId,
                  di_sk = ''FUSION#'' @ show_int timestamp @ ''#'' @ ident,
                  di_record = FusionRec record\<rparr>
      in if db_put_fails e then (Inl ''PutItem failed'', w)
         else (Inr record, w\<lparr>historyTable := historyTable w @ [item]\<rparr>))"

section \<open>Fusion handler (\<open>handlers/fusion.ts\<close>)\<close>

fun join :: "string \<Rightarrow> string list \<Rightarrow> string" where
  "join sep [] = []"
| "join sep [x] = x"
| "join sep (x # y # ys) = x @ sep @ join sep (y # ys)"

text \<open>
  \<open>calculatePlanetWeatherCompatibility\<close>. \<open>weatherData\<close> is always an object, so only
  the test on its \<open>source\<close> can give \<open>unknown\<close>.
\<close>

definition calculatePlanetWeatherCompatibility :: "string \<Rightarrow> weather_data \<Rightarrow> string" where
  "calculatePlanetWeatherCompatibility planetClimate weatherData =
     (if wd_source weatherData = ''mock'' then ''unknown''
      else
        let climate = toLowerCase planetClimate;
            temp = (case wd_temperature weatherData of Some t \<Rightarrow> or_num t 0 | None \<Rightarrow> 0);
            conditions = (case wd_conditions weatherData of
                            Some c \<Rightarrow> or_str (toLowerCase c) []
                          | None \<Rightarrow> []);
            humid = (case wd_humidity weatherData of Some h \<Rightarrow> h > 70 | None \<Rightarrow> False)
        in
          if str_includes climate ''desert'' then
            (if temp > 25 \<and> str_includes conditions ''clear'' then ''perfect match''
             else if temp > 15 then ''good match''
             else ''poor match'')
          else if str_includes climate ''frozen'' \<or> str_includes climate ''cold'' then
            (if temp < 0 then ''perfect match''
             else if temp < 10 then ''good match''
             else ''poor match'')
          else if str_includes climate ''temperate'' then
            (if temp \<ge> 15 \<and> temp \<le> 25 then ''perfect match''
             else if temp \<ge> 5 \<and> temp \<le> 30 then ''good match''
             else ''fair match'')
          else if str_includes climate ''tropical'' \<or> str_includes climate ''jungle'' then
            (if temp > 20 \<and> humid then ''perfect match''
             else if temp > 15 then ''good match''
             else ''fair match'')
          else ''fair match'')"

text \<open>\<open>event.queryStringParameters?.character || '1'\<close>\<close>

definition characterId_of :: "event \<Rightarrow> string" where
  "characterId_of ev =
     (case query_param ev ''character'' of None \<Rightarrow> ''1'' | Some c \<Rightarrow> or_str c ''1'')"

text \<open>
  The three objects the handler assembles. Reading \<open>data!\<close> of a successful result
  that carries no data would throw; that is \<open>None\<close> here and ends in the handler's
  \<open>catch\<close>.
\<close>

definition planetData_of ::
  "NormalizedCharacter \<Rightarrow> NormalizedPlanet ApiCallResult \<Rightarrow> planet_data option" where
  "planetData_of character planetResult =
     (if acr_success planetResult then
        (case acr_data planetResult of
           None \<Rightarrow> None
         | Some planet \<Rightarrow>
             Some \<lparr>pd_id = pl_id planet, pd_name = pl_name planet,
                   pd_climate = or_str (join '', '' (pl_climate planet)) ''Unknown'',
                   pd_terrain = or_str (join '', '' (pl_terrain planet)) ''Unknown''\<rparr>)
      else
        Some \<lparr>pd_id = ch_homeworld_id character, pd_name = ''Unknown'',
              pd_climate = ''Unknown'', pd_terrain = ''Unknown''\<rparr>)"

definition weatherData_of :: "NormalizedWeather ApiCallResult \<Rightarrow> weather_data option" where
  "weatherData_of weatherResult =
     (if acr_success weatherResult then
        (case acr_data weatherResult of
           None \<Rightarrow> None
         | Some weather \<Rightarrow>
             Some (WeatherFilled
               \<lparr>wv_location = nw_name weather, wv_country = nw_country weather,
                wv_temperature = nw_temperature weather, wv_feelsLike = nw_feelsLike weather,
                wv_humidity = nw_humidity weather, wv_pressure = nw_pressure weather,
                wv_windSpeed = nw_windSpeed weather, wv_conditions = nw_description weather,
                wv_source = nw_source weather, wv_isFallback = nw_isFallback weather\<rparr>))
      else
        Some (WeatherPlaceholder ''unavailable''
                ''Weather service temporarily unavailable'' ''mock''))"

definition fusionedData_of ::
  "event \<Rightarrow> NormalizedCharacter \<Rightarrow> NormalizedCharacter ApiCallResult
     \<Rightarrow> NormalizedPlanet ApiCallResult \<Rightarrow> NormalizedWeather ApiCallResult
     \<Rightarrow> planet_data \<Rightarrow> weather_data \<Rightarrow> fusion_data" where
  "fusionedData_of ev character characterResult planetResult weatherResult
       planetData weatherData =
     \<lparr>fd_character =
        \<lparr>cv_id = ch_id character, cv_name = ch_name character,
         cv_height = ch_height character, cv_mass = ch_mass character,
         cv_hairColor = ch_hairColor character, cv_eyeColor = ch_eyeColor character,
         cv_birthYear = ch_birthYear character, cv_gender = ch_gender character\<rparr>,
      fd_homeworld = planetData,
      fd_weather = weatherData,
      fd_fusion =
        \<lparr>fu_summary = ch_name character @ '' from '' @ pd_name planetData
                       @ '' - Currently ''
                       @ (case wd_conditions weatherData of
                            Some c \<Rightarrow> or_str c ''unknown conditions''
                          | None \<Rightarrow> ''unknown conditions''),
         fu_compatibility =
           calculatePlanetWeatherCompatibility (pd_climate planetData) weatherData,
         fu_dataQuality =
           \<lparr>dq_character = ''complete'',
            dq_planet = (if acr_success planetResult then ''complete'' else ''partial''),
            dq_weather = (if acr_success weatherResult then ''complete'' else ''fallback'')\<rparr>\<rparr>,
      fd_meta =
        \<lparr>fm_source = ''SWAPI + OpenWeatherMap'', fm_requestId = requestId ev,
         fm_version = ''1.0.0'',
         fm_time_character = or_num (acr_duration characterResult) 0,
         fm_time_planet = or_num (acr_duration planetResult) 0,
         fm_time_weather = or_num (acr_duration weatherResult) 0\<rparr>\<rparr>"

text \<open>
  The miss path after a successful character fetch: planet, weather, merge, cache
  write, history record (whose failure is caught), success response.
\<close>

definition fuse ::
  "event \<Rightarrow> env \<Rightarrow> string \<Rightarrow> NormalizedCharacter ApiCallResult \<Rightarrow> NormalizedCharacter
     \<Rightarrow> world \<Rightarrow> response \<times> world" where
  "fuse ev e characterId characterResult character w1 =
     (let failed = internalError e ''Failed to process fusion request'' (requestId ev);
          (planetResult, w2) = getPlanet e (ch_homeworld_id character) w1
      in (case planetData_of character planetResult of
            None \<Rightarrow> (failed, w2)
          | Some planetData \<Rightarrow>
             (let (weatherResult, w3) = getWeatherByPlanet e (pd_name planetData) w2
              in (case weatherData_of weatherResult of
                    None \<Rightarrow> (failed, w3)
                  | Some weatherData \<Rightarrow>
                     (let fusionedData =
                            fusionedData_of ev character characterResult planetResult
                              weatherResult planetData weatherData;
                          totalProcessingTime =
                            or_num (acr_duration characterResult) 0
                            + or_num (acr_duration planetResult) 0
                            + or_num (acr_duration weatherResult) 0;
                          w4 = cache_set e (fusionKey characterId) (FusionObj fusionedData)
                                 (Num FUSIONED_DATA_TTL) w3;
                          (stored, w5) = storeFusionData e characterId fusionedData
                                           (requestId ev) totalProcessingTime w4
                      in (success e (FusionObj fusionedData) (requestId ev) False
                            [(''characterId'', JStr characterId),
                             (''duration'', JNumber (Num totalProcessingTime)),
                             (''stored'', JBool True)],
                          w5))))))"

definition baseHandler :: "event \<Rightarrow> env \<Rightarrow> world \<Rightarrow> response \<times> world" where
  "baseHandler ev e w =
     (let characterId = characterId_of ev;
          cacheKey = fusionKey characterId;
          cachedData = cache_get e cacheKey w
      in if truthy_payload cachedData then
           (success e cachedData (requestId ev) True
              [(''characterId'', JStr characterId), (''duration'', JNumber (Num 0)),
               (''cached'', JBool True)],
            w)
         else
           let (characterResult, w1) = getCharacter e characterId w
           in if \<not> acr_success characterResult then
                (badRequest e (''Character '' @ characterId @ '' not found or unavailable'')
                   (requestId ev),
                 w1)
              else
                (case acr_data characterResult of
                   None \<Rightarrow>
                     (internalError e ''Failed to process fusion request'' (requestId ev), w1)
                 | Some character \<Rightarrow> fuse ev e characterId characterResult character w1))"

section \<open>Rate limiter middleware\<close>

text \<open>
  A handler takes the event and returns a response or throws (\<open>Inl\<close>); the base
  handler of the fusion endpoint catches everything itself.
\<close>

type_synonym handler = "event \<Rightarrow> env \<Rightarrow> world \<Rightarrow> (string + response) \<times> world"

record RateLimitOptions =
  requestsLimit :: "int option"
  windowMinutes :: "int option"

definition DEFAULT_REQUESTS_LIMIT :: int where
  "DEFAULT_REQUESTS_LIMIT = 100"

definition DEFAULT_WINDOW_MINUTES :: int where
  "DEFAULT_WINDOW_MINUTES = 60"

text \<open>\<open>options.x || DEFAULT\<close>, then \<open>process.env.X ? parseInt(process.env.X, 10) : x\<close>.\<close>

definition option_or_default :: "int option \<Rightarrow> int \<Rightarrow> int" where
  "option_or_default v d = (case v of None \<Rightarrow> d | Some n \<Rightarrow> or_num n d)"

definition env_or :: "string option \<Rightarrow> int \<Rightarrow> number" where
  "env_or var d =
     (case var of
        None \<Rightarrow> Num d
      | Some s \<Rightarrow> if s = [] then Num d else parseInt (Some 10) s)"

definition envRequestsLimit :: "RateLimitOptions \<Rightarrow> env \<Rightarrow> number" where
  "envRequestsLimit options e =
     env_or (RATE_LIMIT_REQUESTS e)
       (option_or_default (requestsLimit options) DEFAULT_REQUESTS_LIMIT)"

definition envWindowMinutes :: "RateLimitOptions \<Rightarrow> env \<Rightarrow> number" where
  "envWindowMinutes options e =
     env_or (RATE_LIMIT_WINDOW_MINUTES e)
       (option_or_default (windowMinutes options) DEFAULT_WINDOW_MINUTES)"

definition clientIp :: "event \<Rightarrow> string" where
  "clientIp ev = (case sourceIp ev of None \<Rightarrow> ''unknown'' | Some ip \<Rightarrow> or_str ip ''unknown'')"

definition rateKey :: "event \<Rightarrow> string" where
  "rateKey ev = ''rate_limit:'' @ clientIp ev @ '':'' @ httpMethod ev @ '':'' @ path ev"

text \<open>\<open>cachedData ? parseInt(cachedData.count, 10) : 0\<close>\<close>

definition currentCount :: "env \<Rightarrow> event \<Rightarrow> world \<Rightarrow> number" where
  "currentCount e ev w =
     (let cachedData = cache_get e (rateKey ev) w
      in if truthy_payload cachedData then parseInt_val (count_field cachedData) else Num 0)"

definition rateLimitMessage :: "RateLimitOptions \<Rightarrow> env \<Rightarrow> string" where
  "rateLimitMessage options e =
     ''Rate limit exceeded. Maximum '' @ show_number (envRequestsLimit options e)
     @ '' requests allowed per '' @ show_number (envWindowMinutes options e) @ '' minutes.''"

text \<open>
  The limiter. Inside its \<open>try\<close> only the wrapped handler can throw (the cache
  service catches its own errors); the \<open>catch\<close> then runs the handler again.
\<close>

definition rateLimiter :: "RateLimitOptions \<Rightarrow> handler \<Rightarrow> handler" where
  "rateLimiter options handler ev e w =
     (let count = currentCount e ev w
      in if num_ge count (envRequestsLimit options e) then
           (Inr (tooManyRequests e (rateLimitMessage options e) (requestId ev)), w)
         else
           (let ttlSeconds = num_mul (envWindowMinutes options e) (Num 60);
                w1 = cache_set e (rateKey ev)
                       (CounterObj (JNumber (num_add count (Num 1)))) ttlSeconds w
            in (case handler ev e w1 of
                  (Inr r, w2) \<Rightarrow> (Inr r, w2)
                | (Inl err, w2) \<Rightarrow> handler ev e w2)))"

text \<open>The exported fusion handler: 100 requests per 60 minutes around the base handler.\<close>

definition fusion_handler :: handler where
  "fusion_handler =
     rateLimiter \<lparr>requestsLimit = Some 100, windowMinutes = Some 60\<rparr>
       (\<lambda>ev e w. case baseHandler ev e w of (r, w') \<Rightarrow> (Inr r, w'))"

section \<open>History handler (\<open>handlers/history.ts\<close>)\<close>

definition MAX_PAGE_SIZE :: int where
  "MAX_PAGE_SIZE = 100"

text \<open>\<open>parseInt(queryParams.limit || '10')\<close>, then \<open>-1\<close> for \<open>NaN\<close> and the cap otherwise.\<close>

definition history_limit :: "event \<Rightarrow> int" where
  "history_limit ev =
     (case parseInt None (case query_param ev ''limit'' of
                            None \<Rightarrow> ''10''
                          | Some s \<Rightarrow> or_str s ''10'') of
        NaN \<Rightarrow> - 1
      | Num n \<Rightarrow> min n MAX_PAGE_SIZE)"

definition history_source :: "event \<Rightarrow> string" where
  "history_source ev =
     (case query_param ev ''source'' of None \<Rightarrow> ''all'' | Some s \<Rightarrow> or_str s ''all'')"

text \<open>\<open>queryParams.t ? parseInt(queryParams.t) : undefined\<close>\<close>

definition history_time :: "event \<Rightarrow> string \<Rightarrow> number option" where
  "history_time ev name =
     (case query_param ev name of
        None \<Rightarrow> None
      | Some s \<Rightarrow> if s = [] then None else Some (parseInt None s))"

fun truthy_opt :: "number option \<Rightarrow> bool" where
  "truthy_opt None = False"
| "truthy_opt (Some n) = truthy_num n"

fun opt_gt :: "number option \<Rightarrow> number option \<Rightarrow> bool" where
  "opt_gt (Some a) (Some b) = num_gt a b"
| "opt_gt _ _ = False"

text \<open>
  \<open>DatabaseService.getHistory\<close> builds one scan request from the options and sends it.
  A start or end time that is truthy is marshalled into the filter values first,
  and the SDK's \<open>marshall\<close> throws for a number beyond the safe integers (and for the
  infinities), so that no scan is sent then. The scan and its unmarshalled answer
  (records as the service writes them) are \<open>db_scan\<close>; sending it is recorded in
  \<open>calls\<close>. Every error is rethrown to the caller.
\<close>

definition MAX_SAFE_INTEGER :: int where
  "MAX_SAFE_INTEGER = 2 ^ 53 - 1"

fun marshall_number_fails :: "number \<Rightarrow> bool" where
  "marshall_number_fails NaN = True"
| "marshall_number_fails (Num n) = (n > MAX_SAFE_INTEGER \<or> n < - MAX_SAFE_INTEGER)"

text \<open>\<open>if (t) marshall({':t': t})\<close> throws.\<close>

fun filter_value_fails :: "number option \<Rightarrow> bool" where
  "filter_value_fails None = False"
| "filter_value_fails (Some n) = (truthy_num n \<and> marshall_number_fails n)"

definition getHistory ::
  "env \<Rightarrow> HistoryQueryOptions \<Rightarrow> world \<Rightarrow> (string + PaginatedResult) \<times> world" where
  "getHistory e options w =
     (if filter_value_fails (hq_startTime options) \<or> filter_value_fails (hq_endTime options)
      then (Inl ''marshall failed'', w)
      else (db_scan e options, w\<lparr>calls := calls w @ [ScanHistory options]\<rparr>))"

text \<open>
  \<open>new Date(t).toISOString()\<close> throws a \<open>RangeError\<close> for a time outside the range of
  dates, 8.64e15 milliseconds either side of the epoch. The handler renders the
  timestamp of every item and the truthy start and end times.
\<close>

definition toISOString_fails :: "int \<Rightarrow> bool" where
  "toISOString_fails t = (t > 8640000000000000 \<or> t < - 8640000000000000)"

fun record_timestamp :: "history_record \<Rightarrow> int" where
  "record_timestamp (FusionRec r) = fr_timestamp r"
| "record_timestamp (CustomRec r) = cr_timestamp r"

fun rendering_fails :: "number option \<Rightarrow> bool" where
  "rendering_fails (Some (Num n)) = (n \<noteq> 0 \<and> toISOString_fails n)"
| "rendering_fails _ = False"

text \<open>
  The handler validates, then queries, then renders. Everything thrown after the
  validation reaches the handler's \<open>catch\<close> and is answered 500. The ISO text of the
  times is not modelled.
\<close>

definition history_handler :: "event \<Rightarrow> env \<Rightarrow> world \<Rightarrow> response \<times> world" where
  "history_handler ev e w =
     (let limit = history_limit ev;
          lastEvaluatedKey = (case query_param ev ''cursor'' of
                                None \<Rightarrow> None
                              | Some c \<Rightarrow> if c = [] then None else Some c);
          source = history_source ev;
          startTime = history_time ev ''startTime'';
          endTime = history_time ev ''endTime''
      in if limit < 1 then
           (badRequest e ''Limit must be a positive integer'' (requestId ev), w)
         else if source \<noteq> [] \<and> source \<notin> set [''fusion'', ''custom'', ''all''] then
           (badRequest e ''Source must be one of: fusion, custom, all'' (requestId ev), w)
         else if truthy_opt startTime \<and> truthy_opt endTime \<and> opt_gt startTime endTime then
           (badRequest e ''Start time cannot be greater than end time'' (requestId ev), w)
         else
           (let queryOptions =
                  \<lparr>hq_limit = limit, hq_lastEvaluatedKey = lastEvaluatedKey,
                   hq_source = source, hq_startTime = startTime, hq_endTime = endTime\<rparr>;
                failed = internalError e ''Failed to retrieve history'' (requestId ev)
            in (case getHistory e queryOptions w of
                  (Inl err, w1) \<Rightarrow> (failed, w1)
                | (Inr result, w1) \<Rightarrow>
                    if list_ex (\<lambda>item. toISOString_fails (record_timestamp item))
                         (pr_items result)
                       \<or> rendering_fails startTime \<or> rendering_fails endTime
                    then (failed, w1)
                    else
                    (success e
                       (HistoryObj
                          \<lparr>hr_items = pr_items result,
                           hr_limit = limit,
                           hr_count = pr_count result,
                           hr_hasNext = (case pr_lastEvaluatedKey result of
                                           None \<Rightarrow> False | Some k \<Rightarrow> k \<noteq> []),
                           hr_nextCursor = (case pr_lastEvaluatedKey result of
                                              None \<Rightarrow> None
                                            | Some k \<Rightarrow> if k = [] then None else Some k),
                           hr_scannedCount = pr_scannedCount result,
                           hr_filter_source = source,
                           hr_filter_startTime =
                             (if truthy_opt startTime then startTime else None),
                           hr_filter_endTime =
                             (if truthy_opt endTime then endTime else None)\<rparr>)
                       (requestId ev) False
                       [(''count'', JNumber (Num (pr_count result))),
                        (''source'', JStr source),
                        (''filtered'',
                         JBool (truthy_opt startTime \<or> truthy_opt endTime
                                \<or> source \<noteq> ''all''))],
                     w1))))"

text \<open>
  The three validation tests of the handler together, on the parsed parameters (the
  source is never empty after its default).
\<close>

definition history_invalid :: "event \<Rightarrow> bool" where
  "history_invalid ev =
     (history_limit ev < 1
      \<or> history_source ev \<notin> set [''fusion'', ''custom'', ''all'']
      \<or> (truthy_opt (history_time ev ''startTime'') \<and> truthy_opt (history_time ev ''endTime'')
          \<and> opt_gt (history_time ev ''startTime'') (history_time ev ''endTime'')))"

text \<open>Both time filters of a query can be marshalled, so that the scan is sent.\<close>

definition history_times_marshallable :: "event \<Rightarrow> bool" where
  "history_times_marshallable ev =
     (\<not> (filter_value_fails (history_time ev ''startTime'')
         \<or> filter_value_fails (history_time ev ''endTime'')))"

section \<open>Sequences of fusion requests\<close>

text \<open>
  Requests for the same event, one after the other; before each, the store may have
  deleted expired cache items.
\<close>

fun run_fusions :: "event \<Rightarrow> env list \<Rightarrow> world \<Rightarrow> world" where
  "run_fusions ev [] w = w"
| "run_fusions ev (e # es) w =
     run_fusions ev es (snd (baseHandler ev e (ttl_sweep (now e) (swept e) w)))"

section \<open>The compatibility table of the specification\<close>

text \<open>
  The table as the specification gives it: rows in priority order, each with its
  climate keywords and its rule on temperature, humidity and a clear sky; the first
  row with a keyword occurring in the climate decides, and no row gives \<open>fair\<close>.
\<close>

datatype rating = Perfect | Good | Fair | Poor

type_synonym table_row = "string list \<times> (int \<Rightarrow> int \<Rightarrow> bool \<Rightarrow> rating)"

definition compatibility_table :: "table_row list" where
  "compatibility_table =
     [([''desert''],
       \<lambda>temp humidity clear.
         if temp > 25 \<and> clear then Perfect else if temp > 15 then Good else Poor),
      ([''frozen'', ''cold''],
       \<lambda>temp humidity clear.
         if temp < 0 then Perfect else if temp < 10 then Good else Poor),
      ([''temperate''],
       \<lambda>temp humidity clear.
         if 15 \<le> temp \<and> temp \<le> 25 then Perfect
         else if 5 \<le> temp \<and> temp \<le> 30 then Good else Fair),
      ([''tropical'', ''jungle''],
       \<lambda>temp humidity clear.
         if temp > 20 \<and> humidity > 70 then Perfect else if temp > 15 then Good else Fair)]"

fun first_match :: "string \<Rightarrow> table_row list \<Rightarrow> table_row option" where
  "first_match climate [] = None"
| "first_match climate (row # rows) =
     (if list_ex (str_includes climate) (fst row) then Some row
      else first_match climate rows)"

definition table_rating :: "string \<Rightarrow> int \<Rightarrow> int \<Rightarrow> string \<Rightarrow> rating" where
  "table_rating climate temp humidity conditions =
     (case first_match climate compatibility_table of
        None \<Rightarrow> Fair
      | Some row \<Rightarrow> snd row temp humidity (str_includes conditions ''clear''))"

fun rating_label :: "rating \<Rightarrow> string" where
  "rating_label Perfect = ''perfect match''"
| "rating_label Good = ''good match''"
| "rating_label Fair = ''fair match''"
| "rating_label Poor = ''poor match''"

text \<open>The fused result carried by a response, if it carries one.\<close>

definition fused_of :: "response \<Rightarrow> fusion_data option" where
  "fused_of r = (case body r of SuccessBody (FusionObj fd) meta \<Rightarrow> Some fd | _ \<Rightarrow> None)"

section \<open>Example inputs\<close>

definition luke :: NormalizedCharacter where
  "luke =
     \<lparr>ch_id = ''1'', ch_name = ''Luke Skywalker'', ch_height = Some 172, ch_mass = Some 77,
      ch_hairColor = ''blond'', ch_eyeColor = ''blue'', ch_birthYear = ''19BBY'',
      ch_gender = ''male'', ch_homeworld_id = ''1''\<rparr>"

definition tatooine :: NormalizedPlanet where
  "tatooine =
     \<lparr>pl_id = ''1'', pl_name = ''Tatooine'', pl_climate = [''arid'', ''Desert''],
      pl_terrain = [''desert'']\<rparr>"

definition refused :: http_error where
  "refused = \<lparr>err_code = ''ECONNREFUSED'', err_message = ''connect refused'', err_status = None\<rparr>"

definition tucson :: OpenWeatherResponse where
  "tucson =
     \<lparr>ow_name = ''Tucson'', ow_country = Some ''US'', ow_temp = 304 / 10,
      ow_feels_like = 29, ow_humidity = 12, ow_pressure = 1010, ow_wind_speed = Some 2,
      ow_description = Some ''Clear sky''\<rparr>"

definition empty_page :: PaginatedResult where
  "empty_page =
     \<lparr>pr_items = [], pr_lastEvaluatedKey = None, pr_count = 0, pr_scannedCount = Some 0\<rparr>"

text \<open>
  A request environment at clock 1000000 ms in which SWAPI knows character 1 and
  planet 1, no weather API key is configured and both stores answer.
\<close>

definition env0 :: env where
  "env0 =
     \<lparr>now = 1000000, apiKey = [],
      http_people = (\<lambda>i. if i = ''1'' then Inr luke else Inl refused),
      http_planets = (\<lambda>i. if i = ''1'' then Inr tatooine else Inl refused),
      http_weather = (\<lambda>q. if q = ''Tucson,US'' then Inr tucson else Inl refused),
      people_ms = 120, planets_ms = 80, weather_ms = 0,
      random = (\<lambda>i. 1 / 2), uuid = ''u-1'',
      cache_get_fails = (\<lambda>k. False), cache_put_fails = (\<lambda>k. False),
      db_put_fails = False, db_scan = (\<lambda>q. Inr empty_page),
      RATE_LIMIT_REQUESTS = None, RATE_LIMIT_WINDOW_MINUTES = None,
      swept = (\<lambda>k. False)\<rparr>"

definition world0 :: world where
  "world0 = \<lparr>cacheTable = Map.empty, historyTable = [], calls = []\<rparr>"

definition ev0 :: event where
  "ev0 =
     \<lparr>queryStringParameters = None, requestId = ''r-1'', path = ''/fusion'',
      httpMethod = ''GET'', sourceIp = Some ''10.0.0.7''\<rparr>"

text \<open>A history query with a fractional limit, an empty source and an inverted range.\<close>

definition ev_history :: event where
  "ev_history =
     \<lparr>queryStringParameters =
        Some [''limit'' \<mapsto> ''2.5'', ''source'' \<mapsto> [], ''startTime'' \<mapsto> ''5'',
              ''endTime'' \<mapsto> ''0''],
      requestId = ''r-2'', path = ''/history'', httpMethod = ''GET'',
      sourceIp = Some ''10.0.0.7''\<rparr>"

text \<open>A wrapped handler that always answers 200 and leaves a mark in \<open>calls\<close>.\<close>

definition ok_handler :: handler where
  "ok_handler ev e w =
     (Inr (success e (Prim (JStr ''ok'')) (requestId ev) False []),
      w\<lparr>calls := calls w @ [GetPeople ''handler-ran'']\<rparr>)"

text \<open>A cache table holding an exhausted counter for \<open>ev0\<close> that expires at second 2800.\<close>

definition world_exhausted :: world where
  "world_exhausted =
     \<lparr>cacheTable =
        [''rate_limit:10.0.0.7:GET:/fusion'' \<mapsto>
           \<lparr>ci_value = CounterObj (JNumber (Num 100)), ci_ttl = 2800, ci_createdAt = 1000000\<rparr>],
      historyTable = [], calls = []\<rparr>"

text \<open>Variants of \<open>env0\<close>: SWAPI without the character, SWAPI without the planet.\<close>

definition env_no_character :: env where
  "env_no_character = env0\<lparr>http_people := (\<lambda>i. Inl refused)\<rparr>"

definition env_no_planet :: env where
  "env_no_planet = env0\<lparr>http_planets := (\<lambda>i. Inl refused)\<rparr>"

text \<open>
  A later request, 1500 seconds on, by which time the store has deleted whatever had
  expired; and a cache table already holding a value under the fusion key of \<open>ev0\<close>.
\<close>

definition env_later :: env where
  "env_later = env0\<lparr>now := 2500000, swept := (\<lambda>k. True)\<rparr>"

definition world_cached :: world where
  "world_cached =
     \<lparr>cacheTable =
        [''fusioned:1'' \<mapsto>
           \<lparr>ci_value = Prim (JStr ''cached fusion''), ci_ttl = 2800, ci_createdAt = 1000000\<rparr>],
      historyTable = [], calls = []\<rparr>"

text \<open>
  With an API key: the weather request fails, or succeeds for Tucson; and the fused
  result of the latter.
\<close>

definition env_weather_down :: env where
  "env_weather_down = env0\<lparr>apiKey := ''key'', http_weather := (\<lambda>q. Inl refused)\<rparr>"

definition env_live :: env where
  "env_live = env0\<lparr>apiKey := ''key''\<rparr>"

definition tucson_view :: weather_view where
  "tucson_view =
     \<lparr>wv_location = ''Tucson'', wv_country = ''US'', wv_temperature = 30,
      wv_feelsLike = 29, wv_humidity = 12, wv_pressure = 1010, wv_windSpeed = 7,
      wv_conditions = ''Clear sky'', wv_source = ''OPENWEATHERMAP'', wv_isFallback = False\<rparr>"

definition luke_fusion :: fusion_data where
  "luke_fusion =
     \<lparr>fd_character =
        \<lparr>cv_id = ''1'', cv_name = ''Luke Skywalker'', cv_height = Some 172,
         cv_mass = Some 77, cv_hairColor = ''blond'', cv_eyeColor = ''blue'',
         cv_birthYear = ''19BBY'', cv_gender = ''male''\<rparr>,
      fd_homeworld =
        \<lparr>pd_id = ''1'', pd_name = ''Tatooine'', pd_climate = ''arid, Desert'',
         pd_terrain = ''desert''\<rparr>,
      fd_weather = WeatherFilled tucson_view,
      fd_fusion =
        \<lparr>fu_summary = ''Luke Skywalker from Tatooine - Currently Clear sky'',
         fu_compatibility = ''perfect match'',
         fu_dataQuality =
           \<lparr>dq_character = ''complete'', dq_planet = ''complete'', dq_weather = ''complete''\<rparr>\<rparr>,
      fd_meta =
        \<lparr>fm_source = ''SWAPI + OpenWeatherMap'', fm_requestId = ''r-1'',
         fm_version = ''1.0.0'', fm_time_character = 120, fm_time_planet = 80,
         fm_time_weather = 0\<rparr>\<rparr>"

text \<open>
  Second 5000, after the expiry of anything written at second 1000 with a TTL of 1800
  seconds; no item has been deleted. \<open>world_one_entry\<close> holds one such item.
\<close>

definition env_after_expiry :: env where
  "env_after_expiry = env0\<lparr>now := 5000000\<rparr>"

definition world_one_entry :: world where
  "world_one_entry = cache_set env0 ''fusioned:1'' (Prim (JStr ''stored'')) (Num 1800) world0"

text \<open>
  For the rate limiter: the options of the fusion endpoint, second 5000 with the
  expired items deleted, a counter that does not parse, and the store failing every
  read and write.
\<close>

definition limit100 :: RateLimitOptions where
  "limit100 = \<lparr>requestsLimit = Some 100, windowMinutes = Some 60\<rparr>"

definition env_sweeping :: env where
  "env_sweeping = env0\<lparr>now := 5000000, swept := (\<lambda>k. True)\<rparr>"

definition world_bad_counter :: world where
  "world_bad_counter =
     \<lparr>cacheTable =
        [''rate_limit:10.0.0.7:GET:/fusion'' \<mapsto>
           \<lparr>ci_value = CounterObj (JStr ''many''), ci_ttl = 2800, ci_createdAt = 1000000\<rparr>],
      historyTable = [], calls = []\<rparr>"

definition env_store_down :: env where
  "env_store_down = env0\<lparr>cache_get_fails := (\<lambda>k. True), cache_put_fails := (\<lambda>k. True)\<rparr>"

text \<open>History queries that break one validation rule each.\<close>

definition ev_bad_limit :: event where
  "ev_bad_limit = ev_history\<lparr>queryStringParameters := Some [''limit'' \<mapsto> ''ten'']\<rparr>"

definition ev_bad_source :: event where
  "ev_bad_source = ev_history\<lparr>queryStringParameters := Some [''source'' \<mapsto> ''planets'']\<rparr>"

definition ev_bad_range :: event where
  "ev_bad_range =
     ev_history\<lparr>queryStringParameters := Some [''startTime'' \<mapsto> ''9'', ''endTime'' \<mapsto> ''3'']\<rparr>"

text \<open>
  A query whose limit follows a no-break space, and one whose times lie beyond
  \<open>2^53\<close> and round to the same double.
\<close>

definition ev_padded_limit :: event where
  "ev_padded_limit =
     ev_history\<lparr>queryStringParameters := Some [''limit'' \<mapsto> [CHR 0xC2, CHR 0xA0, CHR ''7'']]\<rparr>"

definition ev_rounded_range :: event where
  "ev_rounded_range =
     ev_history\<lparr>queryStringParameters :=
                  Some [''startTime'' \<mapsto> ''9007199254740993'',
                        ''endTime'' \<mapsto> ''9007199254740992'']\<rparr>"

section \<open>Properties of the fusion pipeline\<close>

subsection \<open>Auxiliary facts\<close>

text \<open>The definitions unfolded when a request is evaluated on concrete inputs.\<close>

lemmas eval_defs =
  baseHandler_def fuse_def fusionedData_of_def planetData_of_def weatherData_of_def
  getCharacter_def getPlanet_def getWeatherByPlanet_def getMockWeatherData_def
  normalizeWeather_def mapPlanetToLocation_def planetLocationMap_def
  calculatePlanetWeatherCompatibility_def toLowerCase_def toLowerChar_def
  cache_get_def cache_set_def storeFusionData_def fusionKey_def characterId_of_def
  query_param_def success_def envelope_meta_def or_num_def or_str_def math_round_def
  FUSIONED_DATA_TTL_def fused_of_def floor_eq_iff

lemma planetData_of_getPlanet:
  "planetData_of c (fst (getPlanet e pid w)) \<noteq> None"
  by (simp add: planetData_of_def getPlanet_def Let_def split: sum.splits)

lemma weatherData_of_getWeather:
  "weatherData_of (fst (getWeatherByPlanet e n w)) \<noteq> None"
  by (simp add: weatherData_of_def getWeatherByPlanet_def getMockWeatherData_def Let_def
      split: sum.splits)

lemma getPlanet_tables:
  "cacheTable (snd (getPlanet e pid w)) = cacheTable w"
  "historyTable (snd (getPlanet e pid w)) = historyTable w"
  "acr_duration (fst (getPlanet e pid w)) = planets_ms e"
  by (simp_all add: getPlanet_def Let_def split: sum.splits)

lemma getWeatherByPlanet_tables:
  "cacheTable (snd (getWeatherByPlanet e n w)) = cacheTable w"
  "historyTable (snd (getWeatherByPlanet e n w)) = historyTable w"
  "acr_duration (fst (getWeatherByPlanet e n w)) = weather_ms e"
  by (simp_all add: getWeatherByPlanet_def getMockWeatherData_def Let_def split: sum.splits)

text \<open>
  Once the character is there, the miss path always reaches the merge: it writes the
  fused result to the cache, puts the history record and answers with success.
\<close>

lemma fuse_shape:
  "\<exists>fd pr wr w2 w3.
     getPlanet e (ch_homeworld_id c) w1 = (pr, w2)
     \<and> planetData_of c pr = Some (fd_homeworld fd)
     \<and> getWeatherByPlanet e (pd_name (fd_homeworld fd)) w2 = (wr, w3)
     \<and> weatherData_of wr = Some (fd_weather fd)
     \<and> fd = fusionedData_of ev c cr pr wr (fd_homeworld fd) (fd_weather fd)
     \<and> fuse ev e cid cr c w1 =
         (success e (FusionObj fd) (requestId ev) False
            [(''characterId'', JStr cid),
             (''duration'', JNumber (Num (or_num (acr_duration cr) 0
                + or_num (planets_ms e) 0 + or_num (weather_ms e) 0))),
             (''stored'', JBool True)],
          snd (storeFusionData e cid fd (requestId ev)
                 (or_num (acr_duration cr) 0 + or_num (planets_ms e) 0
                  + or_num (weather_ms e) 0)
                 (cache_set e (fusionKey cid) (FusionObj fd) (Num FUSIONED_DATA_TTL) w3)))"
proof -
  obtain pr w2 where gp: "getPlanet e (ch_homeworld_id c) w1 = (pr, w2)"
    by fastforce
  then obtain pd where pd: "planetData_of c pr = Some pd"
    using planetData_of_getPlanet [of c e "ch_homeworld_id c" w1] by auto
  obtain wr w3 where gw: "getWeatherByPlanet e (pd_name pd) w2 = (wr, w3)"
    by fastforce
  then obtain wd where wd: "weatherData_of wr = Some wd"
    using weatherData_of_getWeather [of e "pd_name pd" w2] by auto
  define fd where "fd = fusionedData_of ev c cr pr wr pd wd"
  have hw: "fd_homeworld fd = pd" "fd_weather fd = wd"
    by (simp_all add: fd_def fusionedData_of_def)
  have d1: "acr_duration pr = planets_ms e"
    using getPlanet_tables(3) [of e "ch_homeworld_id c" w1] gp by simp
  have d2: "acr_duration wr = weather_ms e"
    using getWeatherByPlanet_tables(3) [of e "pd_name pd" w2] gw by simp
  have "fuse ev e cid cr c w1 =
         (success e (FusionObj fd) (requestId ev) False
            [(''characterId'', JStr cid),
             (''duration'', JNumber (Num (or_num (acr_duration cr) 0
                + or_num (planets_ms e) 0 + or_num (weather_ms e) 0))),
             (''stored'', JBool True)],
          snd (storeFusionData e cid fd (requestId ev)
                 (or_num (acr_duration cr) 0 + or_num (planets_ms e) 0
                  + or_num (weather_ms e) 0)
                 (cache_set e (fusionKey cid) (FusionObj fd) (Num FUSIONED_DATA_TTL) w3)))"
    by (simp add: fuse_def gp pd gw wd Let_def d1 d2 fd_def split: prod.splits)
  with gp pd gw wd hw show ?thesis
    by (metis fd_def)
qed

lemma baseHandler_hit:
  assumes "truthy_payload (cache_get e (fusionKey (characterId_of ev)) w)"
  shows "baseHandler ev e w =
     (success e (cache_get e (fusionKey (characterId_of ev)) w) (requestId ev) True
        [(''characterId'', JStr (characterId_of ev)), (''duration'', JNumber (Num 0)),
         (''cached'', JBool True)], w)"
  using assms by (simp add: baseHandler_def Let_def)

lemma baseHandler_miss_found:
  assumes "\<not> truthy_payload (cache_get e (fusionKey (characterId_of ev)) w)"
    and "http_people e (characterId_of ev) = Inr c"
  shows "baseHandler ev e w =
     fuse ev e (characterId_of ev)
       \<lparr>acr_success = True, acr_data = Some (c\<lparr>ch_id := characterId_of ev\<rparr>),
        acr_error = None, acr_duration = people_ms e, acr_warning = None\<rparr>
       (c\<lparr>ch_id := characterId_of ev\<rparr>)
       (w\<lparr>calls := calls w @ [GetPeople (characterId_of ev)]\<rparr>)"
  using assms by (simp add: baseHandler_def Let_def getCharacter_def)

lemma cache_set_cong:
  "cacheTable w = cacheTable w' \<Longrightarrow>
   cacheTable (cache_set e k d t w) = cacheTable (cache_set e k d t w')"
  by (simp add: cache_set_def split: number.splits)

lemma storeFusionData_cache:
  "cacheTable (snd (storeFusionData e cid fd rid t w)) = cacheTable w"
  by (simp add: storeFusionData_def Let_def)

lemma fuse_same_request:
  assumes "requestId ev = requestId ev'"
  shows "fuse ev e cid cr c w = fuse ev' e cid cr c w"
  unfolding fuse_def fusionedData_of_def assms by (rule refl)

lemma baseHandler_same_request:
  assumes "characterId_of ev = characterId_of ev'" and "requestId ev = requestId ev'"
  shows "baseHandler ev e w = baseHandler ev' e w"
  unfolding baseHandler_def assms fuse_same_request [OF assms(2)] by (rule refl)

lemma fused_of_success [simp]:
  "fused_of (success e (FusionObj fd) rid c m) = Some fd"
  by (simp add: fused_of_def success_def)

lemma statusCode_success [simp]:
  "statusCode (success e d rid c m) = 200"
  by (simp add: success_def)

subsection \<open>Default character\<close>

lemma getPlanet_calls:
  "calls (snd (getPlanet e pid w)) = calls w @ [GetPlanet pid]"
  by (simp add: getPlanet_def Let_def split: sum.splits)

lemma getWeatherByPlanet_calls:
  "\<exists>rest. calls (snd (getWeatherByPlanet e n w)) = calls w @ rest"
  by (simp add: getWeatherByPlanet_def Let_def split: sum.splits)

lemma cache_set_calls:
  "calls (cache_set e k d t w) = calls w"
  by (simp add: cache_set_def split: number.splits)

lemma storeFusionData_calls:
  "calls (snd (storeFusionData e cid fd rid t w)) = calls w"
  by (simp add: storeFusionData_def Let_def)

text \<open>
  Claim C10. A fusion request whose query string has no \<open>character\<close> parameter, or an
  empty one, is not rejected for that: it is processed under character id \<open>1\<close>, exactly
  as the explicit request \<open>character=1\<close>. The cache is looked up under \<open>fusioned:1\<close>
  and a hit is returned; on a miss character 1 is fetched first, and when SWAPI has
  it the answer is 200 with the fused result of character 1, the planet being
  fetched next. Only a failed fetch of character 1 gives 400, as for an explicit id.
\<close>

theorem default_character_is_luke:
  assumes "query_param ev ''character'' = None \<or> query_param ev ''character'' = Some []"
  shows "characterId_of ev = ''1''
     \<and> baseHandler ev e w
         = baseHandler (ev\<lparr>queryStringParameters := Some [''character'' \<mapsto> ''1'']\<rparr>) e w
     \<and> (truthy_payload (cache_get e ''fusioned:1'' w) \<longrightarrow>
          baseHandler ev e w =
            (success e (cache_get e ''fusioned:1'' w) (requestId ev) True
               [(''characterId'', JStr ''1''), (''duration'', JNumber (Num 0)),
                (''cached'', JBool True)], w))
     \<and> (\<not> truthy_payload (cache_get e ''fusioned:1'' w) \<and> http_people e ''1'' = Inr c \<longrightarrow>
          statusCode (fst (baseHandler ev e w)) = 200
          \<and> (\<exists>fd. fused_of (fst (baseHandler ev e w)) = Some fd
                \<and> cv_id (fd_character fd) = ''1''
                \<and> cv_name (fd_character fd) = ch_name c)
          \<and> (\<exists>rest. calls (snd (baseHandler ev e w))
                       = calls w @ GetPeople ''1'' # GetPlanet (ch_homeworld_id c) # rest))
     \<and> (\<not> truthy_payload (cache_get e ''fusioned:1'' w) \<and> http_people e ''1'' = Inl err \<longrightarrow>
          baseHandler ev e w =
            (badRequest e ''Character 1 not found or unavailable'' (requestId ev),
             w\<lparr>calls := calls w @ [GetPeople ''1'']\<rparr>))"
proof -
  have a: "characterId_of ev = ''1''"
    using assms by (auto simp: characterId_of_def or_str_def)
  have k: "fusionKey ''1'' = ''fusioned:1''"
    by (simp add: fusionKey_def)
  have b: "characterId_of (ev\<lparr>queryStringParameters := Some [''character'' \<mapsto> ''1'']\<rparr>) = ''1''"
    by (simp add: characterId_of_def query_param_def or_str_def)
  have same: "baseHandler ev e w
         = baseHandler (ev\<lparr>queryStringParameters := Some [''character'' \<mapsto> ''1'']\<rparr>) e w"
    using a b
      baseHandler_same_request
        [of ev "ev\<lparr>queryStringParameters := Some [''character'' \<mapsto> ''1'']\<rparr>" e w]
    by simp
  have hit: "baseHandler ev e w =
            (success e (cache_get e ''fusioned:1'' w) (requestId ev) True
               [(''characterId'', JStr ''1''), (''duration'', JNumber (Num 0)),
                (''cached'', JBool True)], w)"
    if "truthy_payload (cache_get e ''fusioned:1'' w)"
    using baseHandler_hit [of e ev w] that by (simp add: k a)
  have found: "statusCode (fst (baseHandler ev e w)) = 200
          \<and> (\<exists>fd. fused_of (fst (baseHandler ev e w)) = Some fd
                \<and> cv_id (fd_character fd) = ''1''
                \<and> cv_name (fd_character fd) = ch_name c)
          \<and> (\<exists>rest. calls (snd (baseHandler ev e w))
                       = calls w @ GetPeople ''1'' # GetPlanet (ch_homeworld_id c) # rest)"
    if miss: "\<not> truthy_payload (cache_get e ''fusioned:1'' w)"
      and ok: "http_people e ''1'' = Inr c"
  proof -
    let ?c = "c\<lparr>ch_id := ''1''\<rparr>"
    let ?cr = "\<lparr>acr_success = True, acr_data = Some ?c, acr_error = None,
                acr_duration = people_ms e, acr_warning = None\<rparr>"
    let ?w1 = "w\<lparr>calls := calls w @ [GetPeople ''1'']\<rparr>"
    have bh: "baseHandler ev e w = fuse ev e ''1'' ?cr ?c ?w1"
      using baseHandler_miss_found [of e ev w c] miss ok by (simp add: k a)
    obtain fd pr wr w2 w3 where
      gp: "getPlanet e (ch_homeworld_id ?c) ?w1 = (pr, w2)"
      and gw: "getWeatherByPlanet e (pd_name (fd_homeworld fd)) w2 = (wr, w3)"
      and fd: "fd = fusionedData_of ev ?c ?cr pr wr (fd_homeworld fd) (fd_weather fd)"
      and fu: "fuse ev e ''1'' ?cr ?c ?w1 =
           (success e (FusionObj fd) (requestId ev) False
              [(''characterId'', JStr ''1''),
               (''duration'', JNumber (Num (or_num (acr_duration ?cr) 0
                  + or_num (planets_ms e) 0 + or_num (weather_ms e) 0))),
               (''stored'', JBool True)],
            snd (storeFusionData e ''1'' fd (requestId ev)
                   (or_num (acr_duration ?cr) 0 + or_num (planets_ms e) 0
                    + or_num (weather_ms e) 0)
                   (cache_set e (fusionKey ''1'') (FusionObj fd) (Num FUSIONED_DATA_TTL) w3)))"
      using fuse_shape [of e ?c ?w1 ev ?cr "''1''"] by blast
    have ch: "cv_id (fd_character fd) = ''1''" "cv_name (fd_character fd) = ch_name c"
      by (subst fd, simp add: fusionedData_of_def)+
    have c2: "calls w2 = calls w @ [GetPeople ''1'', GetPlanet (ch_homeworld_id c)]"
      using getPlanet_calls [of e "ch_homeworld_id ?c" ?w1] gp by simp
    obtain rest where c3: "calls w3 = calls w2 @ rest"
      using getWeatherByPlanet_calls [of e "pd_name (fd_homeworld fd)" w2] gw by auto
    have "calls (snd (baseHandler ev e w))
            = calls w @ GetPeople ''1'' # GetPlanet (ch_homeworld_id c) # rest"
      by (simp add: bh fu storeFusionData_calls cache_set_calls c3 c2)
    then show ?thesis
      using ch by (auto simp: bh fu)
  qed
  have failed: "baseHandler ev e w =
            (badRequest e ''Character 1 not found or unavailable'' (requestId ev),
             w\<lparr>calls := calls w @ [GetPeople ''1'']\<rparr>)"
    if "\<not> truthy_payload (cache_get e ''fusioned:1'' w)" and "http_people e ''1'' = Inl err"
    using that by (simp add: baseHandler_def Let_def getCharacter_def k a)
  show ?thesis
    using a same hit found failed by blast
qed

theorem default_character_is_luke_witness:
  "query_param ev0 ''character'' = None
   \<and> characterId_of ev0 = ''1''
   \<and> baseHandler ev0 env0 world0
       = baseHandler (ev0\<lparr>queryStringParameters := Some [''character'' \<mapsto> ''1'']\<rparr>) env0 world0
   \<and> \<not> truthy_payload (cache_get env0 ''fusioned:1'' world0)
   \<and> http_people env0 ''1'' = Inr luke
   \<and> statusCode (fst (baseHandler ev0 env0 world0)) = 200
   \<and> (\<exists>fd. fused_of (fst (baseHandler ev0 env0 world0)) = Some fd
         \<and> cv_id (fd_character fd) = ''1''
         \<and> cv_name (fd_character fd) = ''Luke Skywalker'')
   \<and> calls (snd (baseHandler ev0 env0 world0)) = [GetPeople ''1'', GetPlanet ''1'']"
proof -
  have h: "query_param ev0 ''character'' = None"
    by (simp add: query_param_def ev0_def)
  have m: "\<not> truthy_payload (cache_get env0 ''fusioned:1'' world0)"
    by (simp add: cache_get_def env0_def world0_def)
  have p: "http_people env0 ''1'' = Inr luke"
    by (simp add: env0_def)
  have n: "ch_name luke = ''Luke Skywalker''"
    by (simp add: luke_def)
  have c: "calls (snd (baseHandler ev0 env0 world0)) = [GetPeople ''1'', GetPlanet ''1'']"
    by (simp add: eval_defs env0_def ev0_def world0_def luke_def tatooine_def Let_def)
  note t = default_character_is_luke [of ev0 env0 world0 luke, OF disjI1 [OF h]]
  have s1: "characterId_of ev0 = ''1''"
    using t by blast
  have s2: "baseHandler ev0 env0 world0
       = baseHandler (ev0\<lparr>queryStringParameters := Some [''character'' \<mapsto> ''1'']\<rparr>) env0 world0"
    using t by blast
  have s3: "statusCode (fst (baseHandler ev0 env0 world0)) = 200"
    using t m p by blast
  have "\<exists>fd. fused_of (fst (baseHandler ev0 env0 world0)) = Some fd
         \<and> cv_id (fd_character fd) = ''1''
         \<and> cv_name (fd_character fd) = ch_name luke"
    using t m p by blast
  then have s4: "\<exists>fd. fused_of (fst (baseHandler ev0 env0 world0)) = Some fd
         \<and> cv_id (fd_character fd) = ''1''
         \<and> cv_name (fd_character fd) = ''Luke Skywalker''"
    by (simp add: n)
  show ?thesis
    using h s1 s2 m p s3 s4 c by - (intro conjI; assumption)
qed

subsection \<open>Character fetch failure\<close>

text \<open>
  Claim C4. When the cache misses and the character fetch fails, the handler answers
  400 with the message \<open>Character <id> not found or unavailable\<close>; the only upstream
  request issued is the one for the character, so neither the planet nor the weather
  is fetched, and the cache and the history stay as they were.
\<close>

theorem character_failure_stops_pipeline:
  assumes "\<not> truthy_payload (cache_get e (fusionKey (characterId_of ev)) w)"
    and "http_people e (characterId_of ev) = Inl err"
  shows "baseHandler ev e w =
     (\<lparr>statusCode = 400,
       body = ErrorBody ''BAD_REQUEST''
                (''Character '' @ characterId_of ev @ '' not found or unavailable'')
                (envelope_meta e (requestId ev))\<rparr>,
      w\<lparr>calls := calls w @ [GetPeople (characterId_of ev)]\<rparr>)"
  using assms by (simp add: baseHandler_def Let_def getCharacter_def badRequest_def)

theorem character_failure_stops_pipeline_witness:
  "\<not> truthy_payload (cache_get env_no_character (fusionKey (characterId_of ev0)) world0)
   \<and> http_people env_no_character (characterId_of ev0) = Inl refused
   \<and> baseHandler ev0 env_no_character world0 =
       (\<lparr>statusCode = 400,
         body = ErrorBody ''BAD_REQUEST'' ''Character 1 not found or unavailable''
                  [(''timestamp'', JNumber (Num 1000000)), (''requestId'', JStr ''r-1''),
                   (''version'', JStr ''1.0.0'')]\<rparr>,
        world0\<lparr>calls := [GetPeople ''1'']\<rparr>)"
  using character_failure_stops_pipeline [of env_no_character ev0 world0 refused]
  by (simp add: env_no_character_def env0_def ev0_def world0_def cache_get_def
        characterId_of_def query_param_def fusionKey_def envelope_meta_def)

subsection \<open>Planet fetch failure\<close>

text \<open>
  Claim C8. When the cache misses, the character is fetched and the planet fetch
  fails, the handler still answers 200 with a fused result whose homeworld is the
  sentinel (name, climate and terrain \<open>Unknown\<close>, the character's homeworld id) and
  whose planet quality tag is \<open>partial\<close>, and it writes that result to the cache under
  the fusion key with the 30 minute TTL.
\<close>

theorem planet_failure_is_partial_success:
  assumes miss: "\<not> truthy_payload (cache_get e (fusionKey (characterId_of ev)) w)"
    and found: "http_people e (characterId_of ev) = Inr c"
    and noplanet: "http_planets e (ch_homeworld_id c) = Inl err"
  shows "statusCode (fst (baseHandler ev e w)) = 200
     \<and> (\<exists>fd. fused_of (fst (baseHandler ev e w)) = Some fd
           \<and> fd_homeworld fd = \<lparr>pd_id = ch_homeworld_id c, pd_name = ''Unknown'',
                                 pd_climate = ''Unknown'', pd_terrain = ''Unknown''\<rparr>
           \<and> dq_planet (fu_dataQuality (fd_fusion fd)) = ''partial''
           \<and> cacheTable (snd (baseHandler ev e w))
               = cacheTable (cache_set e (fusionKey (characterId_of ev)) (FusionObj fd)
                               (Num FUSIONED_DATA_TTL) w)
           \<and> (\<not> cache_put_fails e (fusionKey (characterId_of ev)) \<longrightarrow>
                cacheTable (snd (baseHandler ev e w)) (fusionKey (characterId_of ev))
                  = Some \<lparr>ci_value = FusionObj fd,
                           ci_ttl = now e div 1000 + FUSIONED_DATA_TTL,
                           ci_createdAt = now e\<rparr>))"
proof -
  let ?cid = "characterId_of ev"
  let ?c = "c\<lparr>ch_id := ?cid\<rparr>"
  let ?cr = "\<lparr>acr_success = True, acr_data = Some ?c, acr_error = None,
              acr_duration = people_ms e, acr_warning = None\<rparr>"
  let ?w1 = "w\<lparr>calls := calls w @ [GetPeople ?cid]\<rparr>"
  have bh: "baseHandler ev e w = fuse ev e ?cid ?cr ?c ?w1"
    using baseHandler_miss_found [OF miss found] .
  obtain fd pr wr w2 w3 where
    gp: "getPlanet e (ch_homeworld_id ?c) ?w1 = (pr, w2)"
    and pd: "planetData_of ?c pr = Some (fd_homeworld fd)"
    and gw: "getWeatherByPlanet e (pd_name (fd_homeworld fd)) w2 = (wr, w3)"
    and fd: "fd = fusionedData_of ev ?c ?cr pr wr (fd_homeworld fd) (fd_weather fd)"
    and fu: "fuse ev e ?cid ?cr ?c ?w1 =
         (success e (FusionObj fd) (requestId ev) False
            [(''characterId'', JStr ?cid),
             (''duration'', JNumber (Num (or_num (acr_duration ?cr) 0
                + or_num (planets_ms e) 0 + or_num (weather_ms e) 0))),
             (''stored'', JBool True)],
          snd (storeFusionData e ?cid fd (requestId ev)
                 (or_num (acr_duration ?cr) 0 + or_num (planets_ms e) 0
                  + or_num (weather_ms e) 0)
                 (cache_set e (fusionKey ?cid) (FusionObj fd) (Num FUSIONED_DATA_TTL) w3)))"
    using fuse_shape [of e ?c ?w1 ev ?cr ?cid] by blast
  have pr: "\<not> acr_success pr"
    using gp noplanet by (auto simp: getPlanet_def Let_def)
  have home: "fd_homeworld fd = \<lparr>pd_id = ch_homeworld_id c, pd_name = ''Unknown'',
                                 pd_climate = ''Unknown'', pd_terrain = ''Unknown''\<rparr>"
    using pd pr by (simp add: planetData_of_def)
  have dq: "dq_planet (fu_dataQuality (fd_fusion fd)) = ''partial''"
    by (subst fd) (simp add: fusionedData_of_def pr)
  have w2: "cacheTable w2 = cacheTable w"
    using getPlanet_tables(1) [of e "ch_homeworld_id ?c" ?w1] gp by simp
  have w3: "cacheTable w3 = cacheTable w"
    using getWeatherByPlanet_tables(1) [of e "pd_name (fd_homeworld fd)" w2] gw w2 by simp
  have cache: "cacheTable (snd (baseHandler ev e w))
               = cacheTable (cache_set e (fusionKey ?cid) (FusionObj fd)
                               (Num FUSIONED_DATA_TTL) w)"
    by (simp add: bh fu storeFusionData_cache cache_set_cong [OF w3])
  have entry: "cacheTable (snd (baseHandler ev e w)) (fusionKey ?cid)
                 = Some \<lparr>ci_value = FusionObj fd,
                          ci_ttl = now e div 1000 + FUSIONED_DATA_TTL,
                          ci_createdAt = now e\<rparr>"
    if "\<not> cache_put_fails e (fusionKey ?cid)"
    using that by (simp add: cache cache_set_def)
  show ?thesis
    using home dq cache entry by (simp add: bh fu)
qed

theorem planet_failure_is_partial_success_witness:
  "\<not> truthy_payload (cache_get env_no_planet (fusionKey (characterId_of ev0)) world0)
   \<and> http_people env_no_planet (characterId_of ev0) = Inr luke
   \<and> http_planets env_no_planet (ch_homeworld_id luke) = Inl refused
   \<and> statusCode (fst (baseHandler ev0 env_no_planet world0)) = 200
   \<and> (\<exists>fd. fused_of (fst (baseHandler ev0 env_no_planet world0)) = Some fd
         \<and> fd_homeworld fd = \<lparr>pd_id = ''1'', pd_name = ''Unknown'',
                               pd_climate = ''Unknown'', pd_terrain = ''Unknown''\<rparr>
         \<and> dq_planet (fu_dataQuality (fd_fusion fd)) = ''partial''
         \<and> cacheTable (snd (baseHandler ev0 env_no_planet world0)) ''fusioned:1''
             = Some \<lparr>ci_value = FusionObj fd, ci_ttl = 2800, ci_createdAt = 1000000\<rparr>)"
proof -
  have h1: "\<not> truthy_payload (cache_get env_no_planet (fusionKey (characterId_of ev0)) world0)"
    by (simp add: cache_get_def env_no_planet_def env0_def world0_def)
  have h2: "http_people env_no_planet (characterId_of ev0) = Inr luke"
    by (simp add: env_no_planet_def env0_def characterId_of_def query_param_def ev0_def)
  have h3: "http_planets env_no_planet (ch_homeworld_id luke) = Inl refused"
    by (simp add: env_no_planet_def env0_def)
  have k: "fusionKey (characterId_of ev0) = ''fusioned:1''"
    by (simp add: fusionKey_def characterId_of_def query_param_def ev0_def)
  have s: "cacheTable (cache_set env_no_planet ''fusioned:1'' (FusionObj fd) (Num FUSIONED_DATA_TTL) world0) ''fusioned:1''
     = Some \<lparr>ci_value = FusionObj fd, ci_ttl = 2800, ci_createdAt = 1000000\<rparr>" for fd
    by (simp add: cache_set_def env_no_planet_def env0_def FUSIONED_DATA_TTL_def)
  have p: "\<not> cache_put_fails env_no_planet ''fusioned:1''"
    by (simp add: env_no_planet_def env0_def)
  show ?thesis
    using planet_failure_is_partial_success [OF h1 h2 h3] h1 h2 h3 p
    by (auto simp: k s luke_def FUSIONED_DATA_TTL_def env_no_planet_def env0_def)
qed

subsection \<open>Cache hits\<close>

lemma ttl_sweep_tables:
  "historyTable (ttl_sweep t sel w) = historyTable w"
  "cacheTable w k = None \<Longrightarrow> cacheTable (ttl_sweep t sel w) k = None"
  "cacheTable w k = Some it \<Longrightarrow> \<not> expired t it \<Longrightarrow> cacheTable (ttl_sweep t sel w) k = Some it"
  by (simp_all add: ttl_sweep_def)

lemma storeFusionData_history:
  "\<not> db_put_fails e \<Longrightarrow>
   length (historyTable (snd (storeFusionData e cid fd rid t w))) = length (historyTable w) + 1"
  by (simp add: storeFusionData_def Let_def)

lemma cache_set_history:
  "historyTable (cache_set e k d t w) = historyTable w"
  by (simp add: cache_set_def split: number.splits)

lemma first_fusion:
  assumes none: "cacheTable w (fusionKey (characterId_of ev)) = None"
    and found: "http_people e (characterId_of ev) = Inr c"
    and put: "\<not> cache_put_fails e (fusionKey (characterId_of ev))"
    and db: "\<not> db_put_fails e"
  shows "\<exists>fd. cacheTable (snd (baseHandler ev e w)) (fusionKey (characterId_of ev))
            = Some \<lparr>ci_value = FusionObj fd, ci_ttl = now e div 1000 + FUSIONED_DATA_TTL,
                     ci_createdAt = now e\<rparr>"
    and "length (historyTable (snd (baseHandler ev e w))) = length (historyTable w) + 1"
proof -
  let ?cid = "characterId_of ev"
  let ?c = "c\<lparr>ch_id := ?cid\<rparr>"
  let ?cr = "\<lparr>acr_success = True, acr_data = Some ?c, acr_error = None,
              acr_duration = people_ms e, acr_warning = None\<rparr>"
  let ?w1 = "w\<lparr>calls := calls w @ [GetPeople ?cid]\<rparr>"
  have miss: "\<not> truthy_payload (cache_get e (fusionKey ?cid) w)"
    using none by (simp add: cache_get_def)
  have bh: "baseHandler ev e w = fuse ev e ?cid ?cr ?c ?w1"
    using baseHandler_miss_found [OF miss found] .
  obtain fd pr wr w2 w3 where
    gp: "getPlanet e (ch_homeworld_id ?c) ?w1 = (pr, w2)"
    and gw: "getWeatherByPlanet e (pd_name (fd_homeworld fd)) w2 = (wr, w3)"
    and fu: "fuse ev e ?cid ?cr ?c ?w1 =
         (success e (FusionObj fd) (requestId ev) False
            [(''characterId'', JStr ?cid),
             (''duration'', JNumber (Num (or_num (acr_duration ?cr) 0
                + or_num (planets_ms e) 0 + or_num (weather_ms e) 0))),
             (''stored'', JBool True)],
          snd (storeFusionData e ?cid fd (requestId ev)
                 (or_num (acr_duration ?cr) 0 + or_num (planets_ms e) 0
                  + or_num (weather_ms e) 0)
                 (cache_set e (fusionKey ?cid) (FusionObj fd) (Num FUSIONED_DATA_TTL) w3)))"
    using fuse_shape [of e ?c ?w1 ev ?cr ?cid] by blast
  have h2: "historyTable w2 = historyTable w"
    using getPlanet_tables(2) [of e "ch_homeworld_id ?c" ?w1] gp by simp
  have h3: "historyTable w3 = historyTable w"
    using getWeatherByPlanet_tables(2) [of e "pd_name (fd_homeworld fd)" w2] gw h2 by simp
  have "cacheTable (snd (baseHandler ev e w)) (fusionKey ?cid)
            = Some \<lparr>ci_value = FusionObj fd, ci_ttl = now e div 1000 + FUSIONED_DATA_TTL,
                     ci_createdAt = now e\<rparr>"
    using put by (simp add: bh fu storeFusionData_cache cache_set_def)
  then show "\<exists>fd. cacheTable (snd (baseHandler ev e w)) (fusionKey (characterId_of ev))
            = Some \<lparr>ci_value = FusionObj fd, ci_ttl = now e div 1000 + FUSIONED_DATA_TTL,
                     ci_createdAt = now e\<rparr>"
    by blast
  show "length (historyTable (snd (baseHandler ev e w))) = length (historyTable w) + 1"
    using db by (simp add: bh fu storeFusionData_history cache_set_history h3)
qed

lemma later_fusions:
  assumes "cacheTable w (fusionKey (characterId_of ev)) = Some it"
    and "truthy_payload (ci_value it)"
    and "\<forall>e \<in> set es. \<not> cache_get_fails e (fusionKey (characterId_of ev))
                       \<and> now e div 1000 < ci_ttl it"
  shows "historyTable (run_fusions ev es w) = historyTable w"
  using assms
proof (induction es arbitrary: w)
  case Nil
  then show ?case by simp
next
  case (Cons e es)
  let ?k = "fusionKey (characterId_of ev)"
  let ?w = "ttl_sweep (now e) (swept e) w"
  have live: "\<not> expired (now e) it"
    using Cons.prems(3) by (simp add: expired_def)
  have kept: "cacheTable ?w ?k = Some it"
    using ttl_sweep_tables(3) [OF Cons.prems(1) live] .
  have hit: "truthy_payload (cache_get e ?k ?w)"
    using kept Cons.prems(2,3) by (simp add: cache_get_def)
  have same: "snd (baseHandler ev e ?w) = ?w"
    using baseHandler_hit [OF hit] by simp
  have "historyTable (run_fusions ev es ?w) = historyTable ?w"
    using Cons.IH [of ?w] kept Cons.prems(2,3) by simp
  then show ?case
    by (simp add: same ttl_sweep_tables(1))
qed

text \<open>
  Claim C3. On a cache hit the handler returns the cached value unchanged, with
  \<open>cached = true\<close> and duration 0 in the envelope, and leaves the world as it was: no
  upstream request, no history record, no cache write. Hence, when a first request
  for a character populates the cache and records history, any number of further
  requests for the same character within the TTL window add no history row: the
  sequence leaves exactly one new row.
\<close>

theorem cache_hit_is_idempotent:
  "(truthy_payload (cache_get e (fusionKey (characterId_of ev)) w) \<longrightarrow>
      baseHandler ev e w =
        (\<lparr>statusCode = 200,
          body = SuccessBody (cache_get e (fusionKey (characterId_of ev)) w)
                   [(''timestamp'', JNumber (Num (now e))), (''requestId'', JStr (requestId ev)),
                    (''version'', JStr ''1.0.0''), (''cached'', JBool True),
                    (''characterId'', JStr (characterId_of ev)),
                    (''duration'', JNumber (Num 0))]\<rparr>,
         w))
   \<and> (cacheTable w0 (fusionKey (characterId_of ev)) = None
        \<and> http_people e0 (characterId_of ev) = Inr c
        \<and> \<not> cache_put_fails e0 (fusionKey (characterId_of ev))
        \<and> \<not> db_put_fails e0
        \<and> (\<forall>e' \<in> set es. \<not> cache_get_fails e' (fusionKey (characterId_of ev))
                          \<and> now e' div 1000 < now e0 div 1000 + FUSIONED_DATA_TTL)
      \<longrightarrow> length (historyTable (run_fusions ev (e0 # es) w0)) = length (historyTable w0) + 1)"
proof (intro conjI impI)
  assume "truthy_payload (cache_get e (fusionKey (characterId_of ev)) w)"
  then show "baseHandler ev e w =
        (\<lparr>statusCode = 200,
          body = SuccessBody (cache_get e (fusionKey (characterId_of ev)) w)
                   [(''timestamp'', JNumber (Num (now e))), (''requestId'', JStr (requestId ev)),
                    (''version'', JStr ''1.0.0''), (''cached'', JBool True),
                    (''characterId'', JStr (characterId_of ev)),
                    (''duration'', JNumber (Num 0))]\<rparr>,
         w)"
    by (simp add: baseHandler_hit success_def envelope_meta_def)
next
  let ?k = "fusionKey (characterId_of ev)"
  let ?w = "ttl_sweep (now e0) (swept e0) w0"
  assume a: "cacheTable w0 ?k = None
        \<and> http_people e0 (characterId_of ev) = Inr c
        \<and> \<not> cache_put_fails e0 ?k
        \<and> \<not> db_put_fails e0
        \<and> (\<forall>e' \<in> set es. \<not> cache_get_fails e' ?k
                          \<and> now e' div 1000 < now e0 div 1000 + FUSIONED_DATA_TTL)"
  then have none: "cacheTable ?w ?k = None"
    by (simp add: ttl_sweep_tables(2))
  obtain fd where stored: "cacheTable (snd (baseHandler ev e0 ?w)) ?k
            = Some \<lparr>ci_value = FusionObj fd, ci_ttl = now e0 div 1000 + FUSIONED_DATA_TTL,
                     ci_createdAt = now e0\<rparr>"
    using first_fusion(1) [OF none, of e0 c] a by blast
  have one: "length (historyTable (snd (baseHandler ev e0 ?w))) = length (historyTable w0) + 1"
    using first_fusion(2) [OF none, of e0 c] a by (simp add: ttl_sweep_tables(1))
  have "historyTable (run_fusions ev es (snd (baseHandler ev e0 ?w)))
          = historyTable (snd (baseHandler ev e0 ?w))"
    using later_fusions [OF stored, of es] a by simp
  then show "length (historyTable (run_fusions ev (e0 # es) w0)) = length (historyTable w0) + 1"
    using one by simp
qed

theorem cache_hit_is_idempotent_witness:
  "truthy_payload (cache_get env_later (fusionKey (characterId_of ev0)) world_cached)
   \<and> baseHandler ev0 env_later world_cached =
        (\<lparr>statusCode = 200,
          body = SuccessBody (Prim (JStr ''cached fusion''))
                   [(''timestamp'', JNumber (Num 2500000)), (''requestId'', JStr ''r-1''),
                    (''version'', JStr ''1.0.0''), (''cached'', JBool True),
                    (''characterId'', JStr ''1''), (''duration'', JNumber (Num 0))]\<rparr>,
         world_cached)
   \<and> cacheTable world0 (fusionKey (characterId_of ev0)) = None
   \<and> http_people env0 (characterId_of ev0) = Inr luke
   \<and> \<not> cache_put_fails env0 (fusionKey (characterId_of ev0))
   \<and> \<not> db_put_fails env0
   \<and> \<not> cache_get_fails env_later (fusionKey (characterId_of ev0))
   \<and> now env_later div 1000 < now env0 div 1000 + FUSIONED_DATA_TTL
   \<and> length (historyTable (run_fusions ev0 [env0, env_later, env_later] world0)) = 1"
proof -
  have k: "fusionKey ''1'' = ''fusioned:1''" "characterId_of ev0 = ''1''"
    by (simp_all add: fusionKey_def characterId_of_def query_param_def ev0_def)
  have hit: "truthy_payload (cache_get env_later ''fusioned:1'' world_cached)"
    "cache_get env_later ''fusioned:1'' world_cached = Prim (JStr ''cached fusion'')"
    by (simp_all add: cache_get_def env_later_def env0_def world_cached_def)
  have seq: "cacheTable world0 ''fusioned:1'' = None
        \<and> http_people env0 ''1'' = Inr luke
        \<and> \<not> cache_put_fails env0 ''fusioned:1''
        \<and> \<not> db_put_fails env0
        \<and> (\<forall>e' \<in> set [env_later, env_later]. \<not> cache_get_fails e' ''fusioned:1''
                          \<and> now e' div 1000 < now env0 div 1000 + FUSIONED_DATA_TTL)"
    by (simp add: world0_def env0_def env_later_def FUSIONED_DATA_TTL_def)
  have more: "requestId ev0 = ''r-1''" "now env_later = 2500000" "historyTable world0 = []"
    by (simp_all add: ev0_def env_later_def world0_def)
  show ?thesis
    using cache_hit_is_idempotent
            [of env_later ev0 world_cached world0 env0 luke "[env_later, env_later]"]
      hit seq
    by (simp add: k more del: run_fusions.simps)
qed

subsection \<open>Weather fetch failure\<close>

text \<open>
  Claim C1, evaluated on the code. With an API key configured and the weather request
  failing, the result carries simulated weather whose source is \<open>MOCK_DATA\<close>; the
  weather service reports it as a success, and the handler tests the source against
  \<open>mock\<close>, so the compatibility is rated from the table (\<open>poor match\<close> here, not
  \<open>unknown\<close>) and the weather quality tag is \<open>complete\<close>, not \<open>fallback\<close>.
\<close>

theorem weather_failure_is_reported_complete:
  "map_option (\<lambda>fd. (wd_source (fd_weather fd), fu_compatibility (fd_fusion fd),
                      dq_weather (fu_dataQuality (fd_fusion fd))))
     (fused_of (fst (baseHandler ev0 env_weather_down world0)))
   = Some (''MOCK_DATA'', ''poor match'', ''complete'')
   \<and> calls (snd (baseHandler ev0 env_weather_down world0))
       = [GetPeople ''1'', GetPlanet ''1'', GetWeather ''Tucson,US'']"
  by (simp add: eval_defs env_weather_down_def env0_def ev0_def world0_def luke_def
        tatooine_def refused_def Let_def)

subsection \<open>Compatibility rating\<close>

lemma calculate_follows_table:
  "wv_source v \<noteq> ''mock'' \<Longrightarrow>
   calculatePlanetWeatherCompatibility climate (WeatherFilled v) =
     rating_label (table_rating (toLowerCase climate) (wv_temperature v) (wv_humidity v)
                     (toLowerCase (wv_conditions v)))"
  by (simp add: calculatePlanetWeatherCompatibility_def table_rating_def
        compatibility_table_def or_num_def or_str_def Let_def)

text \<open>
  Claim C7. For a fusion computed with live weather (source \<open>OPENWEATHERMAP\<close>), the
  compatibility in the result is the rating of the specification's table: the
  lower-cased climate is tested against the keywords desert, frozen/cold, temperate,
  tropical/jungle in this order, the first matching row applies its thresholds to
  the temperature, the humidity and a clear sky, and no match gives the fair rating.
\<close>

theorem compatibility_follows_table:
  assumes miss: "\<not> truthy_payload (cache_get e (fusionKey (characterId_of ev)) w)"
    and res: "fused_of (fst (baseHandler ev e w)) = Some fd"
    and filled: "fd_weather fd = WeatherFilled v"
    and live: "wv_source v = ''OPENWEATHERMAP''"
  shows "fu_compatibility (fd_fusion fd) =
     rating_label (table_rating (toLowerCase (pd_climate (fd_homeworld fd)))
                     (wv_temperature v) (wv_humidity v) (toLowerCase (wv_conditions v)))"
proof (cases "http_people e (characterId_of ev)")
  case (Inl err)
  then have "fused_of (fst (baseHandler ev e w)) = None"
    using miss by (simp add: baseHandler_def Let_def getCharacter_def badRequest_def fused_of_def)
  with res show ?thesis by simp
next
  case (Inr c)
  let ?cid = "characterId_of ev"
  let ?c = "c\<lparr>ch_id := ?cid\<rparr>"
  let ?cr = "\<lparr>acr_success = True, acr_data = Some ?c, acr_error = None,
              acr_duration = people_ms e, acr_warning = None\<rparr>"
  let ?w1 = "w\<lparr>calls := calls w @ [GetPeople ?cid]\<rparr>"
  have bh: "baseHandler ev e w = fuse ev e ?cid ?cr ?c ?w1"
    using baseHandler_miss_found [OF miss Inr] .
  obtain fd' pr wr w5 where
    fd': "fd' = fusionedData_of ev ?c ?cr pr wr (fd_homeworld fd') (fd_weather fd')"
    and fu: "fuse ev e ?cid ?cr ?c ?w1 = (success e (FusionObj fd') (requestId ev) False
            [(''characterId'', JStr ?cid),
             (''duration'', JNumber (Num (or_num (acr_duration ?cr) 0
                + or_num (planets_ms e) 0 + or_num (weather_ms e) 0))),
             (''stored'', JBool True)], w5)"
    using fuse_shape [of e ?c ?w1 ev ?cr ?cid] by blast
  have same: "fd' = fd"
    using res by (simp add: bh fu)
  have "fu_compatibility (fd_fusion fd') =
          calculatePlanetWeatherCompatibility (pd_climate (fd_homeworld fd')) (fd_weather fd')"
    by (subst fd') (simp add: fusionedData_of_def)
  then show ?thesis
    using calculate_follows_table [of v "pd_climate (fd_homeworld fd)"] filled live
    by (simp add: same)
qed

theorem compatibility_follows_table_witness:
  "\<not> truthy_payload (cache_get env_live (fusionKey (characterId_of ev0)) world0)
   \<and> fused_of (fst (baseHandler ev0 env_live world0)) = Some luke_fusion
   \<and> fd_weather luke_fusion = WeatherFilled tucson_view
   \<and> wv_source tucson_view = ''OPENWEATHERMAP''
   \<and> fu_compatibility (fd_fusion luke_fusion) = ''perfect match''
   \<and> table_rating ''arid, desert'' 30 12 ''clear sky'' = Perfect"
proof -
  have h1: "\<not> truthy_payload (cache_get env_live (fusionKey (characterId_of ev0)) world0)"
    by (simp add: cache_get_def env_live_def env0_def world0_def)
  have h2: "fused_of (fst (baseHandler ev0 env_live world0)) = Some luke_fusion"
    by (simp add: eval_defs env_live_def env0_def ev0_def world0_def luke_def
        tatooine_def tucson_def luke_fusion_def tucson_view_def Let_def)
  have h3: "fd_weather luke_fusion = WeatherFilled tucson_view"
    by (simp add: luke_fusion_def)
  have h4: "wv_source tucson_view = ''OPENWEATHERMAP''"
    by (simp add: tucson_view_def)
  have t: "table_rating ''arid, desert'' 30 12 ''clear sky'' = Perfect"
    by (simp add: table_rating_def compatibility_table_def)
  show ?thesis
    using compatibility_follows_table [OF h1 h2 h3 h4] h1 h2 h3 h4 t
    by (simp add: luke_fusion_def)
qed

section \<open>Properties of the cache service\<close>

text \<open>
  Claim C2 as stated fails: an entry written at second 1000 with a TTL of 1800
  seconds is read at second 5000, after its expiry at second 2800, and \<open>get\<close> still
  returns the stored value because the store has not deleted the item yet.
\<close>

theorem expired_entry_still_returned:
  "cacheTable world_one_entry ''fusioned:1''
     = Some \<lparr>ci_value = Prim (JStr ''stored''), ci_ttl = 2800, ci_createdAt = 1000000\<rparr>
   \<and> expired (now env_after_expiry)
        \<lparr>ci_value = Prim (JStr ''stored''), ci_ttl = 2800, ci_createdAt = 1000000\<rparr>
   \<and> cache_get env_after_expiry ''fusioned:1'' world_one_entry = Prim (JStr ''stored'')
   \<and> cache_get env_after_expiry ''fusioned:1'' world_one_entry \<noteq> Prim JNull"
  by (simp add: world_one_entry_def env_after_expiry_def cache_set_def cache_get_def
        env0_def world0_def expired_def)

text \<open>
  Claim C2, amended. \<open>get\<close> never reads the expiry: for an entry past its expiry
  timestamp it returns the absent result once the store has deleted the item (or
  when the store call fails), and the stored value as long as the item is still
  physically present.
\<close>

theorem expired_entry_absent_once_swept:
  assumes "cacheTable w key = Some item" and "expired (now e) item"
  shows "cache_get e key (ttl_sweep (now e) sel w)
           = (if sel key \<or> cache_get_fails e key then Prim JNull else ci_value item)"
  using assms by (simp add: cache_get_def ttl_sweep_def)

theorem expired_entry_absent_once_swept_witness:
  "cacheTable world_one_entry ''fusioned:1''
     = Some \<lparr>ci_value = Prim (JStr ''stored''), ci_ttl = 2800, ci_createdAt = 1000000\<rparr>
   \<and> expired (now env_after_expiry)
        \<lparr>ci_value = Prim (JStr ''stored''), ci_ttl = 2800, ci_createdAt = 1000000\<rparr>
   \<and> cache_get env_after_expiry ''fusioned:1''
        (ttl_sweep (now env_after_expiry) (\<lambda>k. True) world_one_entry) = Prim JNull
   \<and> cache_get env_after_expiry ''fusioned:1''
        (ttl_sweep (now env_after_expiry) (\<lambda>k. False) world_one_entry) = Prim (JStr ''stored'')"
proof -
  have h1: "cacheTable world_one_entry ''fusioned:1''
     = Some \<lparr>ci_value = Prim (JStr ''stored''), ci_ttl = 2800, ci_createdAt = 1000000\<rparr>"
    by (simp add: world_one_entry_def cache_set_def env0_def world0_def)
  have h2: "expired (now env_after_expiry)
        \<lparr>ci_value = Prim (JStr ''stored''), ci_ttl = 2800, ci_createdAt = 1000000\<rparr>"
    by (simp add: expired_def env_after_expiry_def)
  have f: "\<not> cache_get_fails env_after_expiry ''fusioned:1''"
    by (simp add: env_after_expiry_def env0_def)
  show ?thesis
    using expired_entry_absent_once_swept [OF h1 h2, of "\<lambda>k. True"]
      expired_entry_absent_once_swept [OF h1 h2, of "\<lambda>k. False"] h1 h2 f
    by simp
qed

section \<open>Properties of the rate limiter\<close>

lemmas limiter_defs =
  rateLimiter_def currentCount_def rateKey_def clientIp_def envRequestsLimit_def
  envWindowMinutes_def env_or_def option_or_default_def DEFAULT_REQUESTS_LIMIT_def
  DEFAULT_WINDOW_MINUTES_def rateLimitMessage_def tooManyRequests_def envelope_meta_def
  cache_get_def cache_set_def or_num_def or_str_def show_int_def show_nat.simps
  parseInt_def readSign_def skipWhiteSpace.simps whiteSpacePrefix_def is_ws3_def
  isDigitIn_def digitVal_def round_to_double_def

lemma rateLimiter_reject:
  assumes "num_ge (currentCount e ev w) (envRequestsLimit options e)"
  shows "rateLimiter options handler ev e w =
           (Inr (tooManyRequests e (rateLimitMessage options e) (requestId ev)), w)"
  using assms by (simp add: rateLimiter_def Let_def)

lemma rateLimiter_pass:
  assumes "\<not> num_ge (currentCount e ev w) (envRequestsLimit options e)"
  shows "rateLimiter options handler ev e w =
           (case handler ev e
                  (cache_set e (rateKey ev)
                     (CounterObj (JNumber (num_add (currentCount e ev w) (Num 1))))
                     (num_mul (envWindowMinutes options e) (Num 60)) w) of
              (Inr r, w2) \<Rightarrow> (Inr r, w2)
            | (Inl err, w2) \<Rightarrow> handler ev e w2)"
  using assms by (simp add: rateLimiter_def Let_def)

lemma currentCount_absent:
  "cacheTable w (rateKey ev) = None \<Longrightarrow> currentCount e ev w = Num 0"
  by (simp add: currentCount_def cache_get_def)

text \<open>
  Claim C5, amended. With the stored count and the limit and window the limiter
  resolves from the environment, the options and the defaults: a count at or above
  the limit is answered 429 with limit and window in the message, whatever the
  wrapped handler is, and the world is left as it was; otherwise the limiter writes
  the count plus one with a TTL of 60 times the window minutes (stored when the put
  succeeds) and returns what the wrapped handler returns on that world; and a
  request after the expiry of an exhausted counter passes once the store has deleted
  the expired item, provided the limit does not reject a count of 0.
\<close>

theorem rate_limiter_decision:
  fixes handler :: handler
  shows
    "(num_ge (currentCount e ev w) (envRequestsLimit options e) \<longrightarrow>
        rateLimiter options handler ev e w =
          (Inr \<lparr>statusCode = 429,
                body = ErrorBody ''RATE_LIMIT_EXCEEDED''
                         (''Rate limit exceeded. Maximum ''
                          @ show_number (envRequestsLimit options e)
                          @ '' requests allowed per ''
                          @ show_number (envWindowMinutes options e) @ '' minutes.'')
                         (envelope_meta e (requestId ev))\<rparr>,
           w))
     \<and> (\<not> num_ge (currentCount e ev w) (envRequestsLimit options e)
          \<and> handler ev e
               (cache_set e (rateKey ev)
                  (CounterObj (JNumber (num_add (currentCount e ev w) (Num 1))))
                  (num_mul (envWindowMinutes options e) (Num 60)) w) = (Inr r, w2)
        \<longrightarrow> rateLimiter options handler ev e w = (Inr r, w2))
     \<and> (currentCount e ev w = Num n \<and> envWindowMinutes options e = Num m
          \<and> \<not> cache_put_fails e (rateKey ev)
        \<longrightarrow> cacheTable
              (cache_set e (rateKey ev)
                 (CounterObj (JNumber (num_add (currentCount e ev w) (Num 1))))
                 (num_mul (envWindowMinutes options e) (Num 60)) w) (rateKey ev)
            = Some \<lparr>ci_value = CounterObj (JNumber (Num (n + 1))),
                     ci_ttl = now e div 1000 + m * 60, ci_createdAt = now e\<rparr>)
     \<and> (cacheTable w (rateKey ev) = Some item \<and> expired (now e) item \<and> sel (rateKey ev)
          \<and> \<not> num_ge (Num 0) (envRequestsLimit options e)
          \<and> handler ev e
               (cache_set e (rateKey ev) (CounterObj (JNumber (Num 1)))
                  (num_mul (envWindowMinutes options e) (Num 60))
                  (ttl_sweep (now e) sel w)) = (Inr r', w2')
        \<longrightarrow> rateLimiter options handler ev e (ttl_sweep (now e) sel w) = (Inr r', w2'))"
proof (intro conjI impI)
  assume "num_ge (currentCount e ev w) (envRequestsLimit options e)"
  then show "rateLimiter options handler ev e w =
          (Inr \<lparr>statusCode = 429,
                body = ErrorBody ''RATE_LIMIT_EXCEEDED''
                         (''Rate limit exceeded. Maximum ''
                          @ show_number (envRequestsLimit options e)
                          @ '' requests allowed per ''
                          @ show_number (envWindowMinutes options e) @ '' minutes.'')
                         (envelope_meta e (requestId ev))\<rparr>,
           w)"
    by (simp add: rateLimiter_reject tooManyRequests_def rateLimitMessage_def)
next
  assume "\<not> num_ge (currentCount e ev w) (envRequestsLimit options e)
          \<and> handler ev e
               (cache_set e (rateKey ev)
                  (CounterObj (JNumber (num_add (currentCount e ev w) (Num 1))))
                  (num_mul (envWindowMinutes options e) (Num 60)) w) = (Inr r, w2)"
  then show "rateLimiter options handler ev e w = (Inr r, w2)"
    by (simp add: rateLimiter_pass)
next
  assume "currentCount e ev w = Num n \<and> envWindowMinutes options e = Num m
          \<and> \<not> cache_put_fails e (rateKey ev)"
  then show "cacheTable
              (cache_set e (rateKey ev)
                 (CounterObj (JNumber (num_add (currentCount e ev w) (Num 1))))
                 (num_mul (envWindowMinutes options e) (Num 60)) w) (rateKey ev)
            = Some \<lparr>ci_value = CounterObj (JNumber (Num (n + 1))),
                     ci_ttl = now e div 1000 + m * 60, ci_createdAt = now e\<rparr>"
    by (simp add: cache_set_def)
next
  let ?ws = "ttl_sweep (now e) sel w"
  assume a: "cacheTable w (rateKey ev) = Some item \<and> expired (now e) item \<and> sel (rateKey ev)
          \<and> \<not> num_ge (Num 0) (envRequestsLimit options e)
          \<and> handler ev e
               (cache_set e (rateKey ev) (CounterObj (JNumber (Num 1)))
                  (num_mul (envWindowMinutes options e) (Num 60))
                  (ttl_sweep (now e) sel w)) = (Inr r', w2')"
  then have "cacheTable ?ws (rateKey ev) = None"
    by (simp add: ttl_sweep_def)
  then have zero: "currentCount e ev ?ws = Num 0"
    by (rule currentCount_absent)
  show "rateLimiter options handler ev e ?ws = (Inr r', w2')"
    using a by (simp add: rateLimiter_pass zero)
qed


text \<open>
  Claim C5 as stated fails in its last part: the counter for \<open>ev0\<close> is exhausted and
  expired at second 2800; at second 5000 the store still holds the item, the limiter
  reads the count 100 and rejects the request.
\<close>

theorem exhausted_counter_rejects_after_expiry:
  "cacheTable world_exhausted (rateKey ev0)
     = Some \<lparr>ci_value = CounterObj (JNumber (Num 100)), ci_ttl = 2800, ci_createdAt = 1000000\<rparr>
   \<and> expired (now env_after_expiry)
        \<lparr>ci_value = CounterObj (JNumber (Num 100)), ci_ttl = 2800, ci_createdAt = 1000000\<rparr>
   \<and> rateLimiter limit100 ok_handler ev0 env_after_expiry world_exhausted =
       (Inr \<lparr>statusCode = 429,
             body = ErrorBody ''RATE_LIMIT_EXCEEDED''
                      ''Rate limit exceeded. Maximum 100 requests allowed per 60 minutes.''
                      [(''timestamp'', JNumber (Num 5000000)), (''requestId'', JStr ''r-1''),
                       (''version'', JStr ''1.0.0'')]\<rparr>,
        world_exhausted)"
  by (simp add: limiter_defs limit100_def env_after_expiry_def env0_def ev0_def
        world_exhausted_def expired_def Let_def)

theorem rate_limiter_decision_witness:
  "num_ge (currentCount env0 ev0 world_exhausted) (envRequestsLimit limit100 env0)
   \<and> rateLimiter limit100 ok_handler ev0 env0 world_exhausted =
       (Inr \<lparr>statusCode = 429,
             body = ErrorBody ''RATE_LIMIT_EXCEEDED''
                      ''Rate limit exceeded. Maximum 100 requests allowed per 60 minutes.''
                      [(''timestamp'', JNumber (Num 1000000)), (''requestId'', JStr ''r-1''),
                       (''version'', JStr ''1.0.0'')]\<rparr>,
        world_exhausted)
   \<and> \<not> num_ge (currentCount env0 ev0 world0) (envRequestsLimit limit100 env0)
   \<and> currentCount env0 ev0 world0 = Num 0
   \<and> envWindowMinutes limit100 env0 = Num 60
   \<and> \<not> cache_put_fails env0 (rateKey ev0)
   \<and> cacheTable (cache_set env0 (rateKey ev0) (CounterObj (JNumber (Num 1))) (Num 3600) world0)
        (rateKey ev0)
       = Some \<lparr>ci_value = CounterObj (JNumber (Num 1)), ci_ttl = 4600, ci_createdAt = 1000000\<rparr>
   \<and> rateLimiter limit100 ok_handler ev0 env0 world0 =
       ok_handler ev0 env0
         (cache_set env0 (rateKey ev0) (CounterObj (JNumber (Num 1))) (Num 3600) world0)
   \<and> expired (now env_sweeping)
        \<lparr>ci_value = CounterObj (JNumber (Num 100)), ci_ttl = 2800, ci_createdAt = 1000000\<rparr>
   \<and> swept env_sweeping (rateKey ev0)
   \<and> rateLimiter limit100 ok_handler ev0 env_sweeping
        (ttl_sweep (now env_sweeping) (swept env_sweeping) world_exhausted) =
       ok_handler ev0 env_sweeping
         (cache_set env_sweeping (rateKey ev0) (CounterObj (JNumber (Num 1))) (Num 3600)
            (ttl_sweep (now env_sweeping) (swept env_sweeping) world_exhausted))"
proof -
  let ?item = "\<lparr>ci_value = CounterObj (JNumber (Num 100)), ci_ttl = 2800,
                 ci_createdAt = 1000000\<rparr>"
  have lim: "envRequestsLimit limit100 env0 = Num 100"
    "envWindowMinutes limit100 env0 = Num 60"
    "envRequestsLimit limit100 env_sweeping = Num 100"
    "envWindowMinutes limit100 env_sweeping = Num 60"
    by (simp_all add: envRequestsLimit_def envWindowMinutes_def env_or_def
          option_or_default_def or_num_def limit100_def env0_def env_sweeping_def)
  have key: "rateKey ev0 = ''rate_limit:10.0.0.7:GET:/fusion''"
    by (simp add: rateKey_def clientIp_def or_str_def ev0_def)
  have c100: "currentCount env0 ev0 world_exhausted = Num 100"
    by (simp add: currentCount_def key cache_get_def env0_def world_exhausted_def)
  have c0: "currentCount env0 ev0 world0 = Num 0"
    by (simp add: currentCount_def key cache_get_def env0_def world0_def)
  have put: "\<not> cache_put_fails env0 (rateKey ev0)"
    by (simp add: env0_def)
  have entry: "cacheTable world_exhausted (rateKey ev0) = Some ?item"
    by (simp add: key world_exhausted_def)
  have ex: "expired (now env_sweeping) ?item" "swept env_sweeping (rateKey ev0)"
    by (simp_all add: expired_def env_sweeping_def)
  have ok: "ok_handler ev e w
              = (Inr (success e (Prim (JStr ''ok'')) (requestId ev) False []),
                 w\<lparr>calls := calls w @ [GetPeople ''handler-ran'']\<rparr>)" for ev e w
    by (simp add: ok_handler_def)
  note d = rate_limiter_decision [where handler = ok_handler and options = limit100]
  have a: "rateLimiter limit100 ok_handler ev0 env0 world_exhausted =
       (Inr \<lparr>statusCode = 429,
             body = ErrorBody ''RATE_LIMIT_EXCEEDED''
                      ''Rate limit exceeded. Maximum 100 requests allowed per 60 minutes.''
                      [(''timestamp'', JNumber (Num 1000000)), (''requestId'', JStr ''r-1''),
                       (''version'', JStr ''1.0.0'')]\<rparr>,
        world_exhausted)"
    using d [of env0 ev0 world_exhausted] c100 lim
    by (simp add: show_int_def show_nat.simps envelope_meta_def env0_def ev0_def)
  have b: "rateLimiter limit100 ok_handler ev0 env0 world0 =
       ok_handler ev0 env0
         (cache_set env0 (rateKey ev0) (CounterObj (JNumber (Num 1))) (Num 3600) world0)"
    using d [of env0 ev0 world0] c0 lim by (simp add: ok)
  have c: "cacheTable (cache_set env0 (rateKey ev0) (CounterObj (JNumber (Num 1))) (Num 3600) world0)
        (rateKey ev0)
       = Some \<lparr>ci_value = CounterObj (JNumber (Num 1)), ci_ttl = 4600, ci_createdAt = 1000000\<rparr>"
    using d [of env0 ev0 world0 _ _ 0 60] c0 lim put by (simp add: env0_def)
  have f: "rateLimiter limit100 ok_handler ev0 env_sweeping
        (ttl_sweep (now env_sweeping) (swept env_sweeping) world_exhausted) =
       ok_handler ev0 env_sweeping
         (cache_set env_sweeping (rateKey ev0) (CounterObj (JNumber (Num 1))) (Num 3600)
            (ttl_sweep (now env_sweeping) (swept env_sweeping) world_exhausted))"
    using d [of env_sweeping ev0 world_exhausted _ _ _ _ ?item "swept env_sweeping"]
      entry ex lim
    by (simp add: ok)
  show ?thesis
    using a b c f c100 c0 lim put ex by simp
qed


text \<open>
  A limit that rejects a count of 0 rejects the request of a client without a
  counter while the store is healthy: with such a limit no request passes, failure
  or not.
\<close>

lemma rejecting_limit_rejects_without_failure:
  assumes "num_ge (Num 0) (envRequestsLimit options e)"
    and "\<not> cache_get_fails e (rateKey ev)" and "cacheTable w (rateKey ev) = None"
  shows "rateLimiter options handler ev e w =
           (Inr (tooManyRequests e (rateLimitMessage options e) (requestId ev)), w)"
  using assms by (simp add: rateLimiter_reject currentCount_absent)

text \<open>
  Claim C6. An internal failure of the limiter never blocks a request. Whenever the
  limit admits a count of 0 (it is at least 1, or not a number), a failure inside the
  limiter lets the request through and the caller receives exactly what the wrapped
  handler returned: a failed read of the counter counts as 0; with the store down
  for reads and writes the handler runs on the untouched world; an unparsable
  counter is \<open>NaN\<close> and never reaches the limit; and whenever the count is below the
  limit, a failed or unserializable write and an exception of the handler (which the
  \<open>catch\<close> answers by running the handler again) still end in a result of the handler.
\<close>

theorem rate_limiter_fails_open:
  fixes handler :: handler
  shows
    "(cache_get_fails e (rateKey ev) \<and> \<not> num_ge (Num 0) (envRequestsLimit options e)
        \<longrightarrow> (\<exists>w'. rateLimiter options handler ev e w = handler ev e w'))
     \<and> (cache_get_fails e (rateKey ev) \<and> cache_put_fails e (rateKey ev)
          \<and> \<not> num_ge (Num 0) (envRequestsLimit options e)
          \<and> handler ev e w = (Inr r, w2)
        \<longrightarrow> rateLimiter options handler ev e w = (Inr r, w2))
     \<and> (currentCount e ev w = NaN
        \<longrightarrow> (\<exists>w'. rateLimiter options handler ev e w = handler ev e w'))
     \<and> (\<not> num_ge (currentCount e ev w) (envRequestsLimit options e)
        \<longrightarrow> (\<exists>w'. rateLimiter options handler ev e w = handler ev e w'))"
proof -
  have pass: "\<exists>w'. rateLimiter options handler ev e w = handler ev e w'"
    if "\<not> num_ge (currentCount e ev w) (envRequestsLimit options e)"
  proof -
    let ?w1 = "cache_set e (rateKey ev)
                 (CounterObj (JNumber (num_add (currentCount e ev w) (Num 1))))
                 (num_mul (envWindowMinutes options e) (Num 60)) w"
    obtain res w2 where h: "handler ev e ?w1 = (res, w2)"
      by fastforce
    show ?thesis
    proof (cases res)
      case (Inl err)
      then have "rateLimiter options handler ev e w = handler ev e w2"
        using that h by (simp add: rateLimiter_pass)
      then show ?thesis by blast
    next
      case (Inr resp)
      then have "rateLimiter options handler ev e w = handler ev e ?w1"
        using that h by (simp add: rateLimiter_pass)
      then show ?thesis by blast
    qed
  qed
  have down: "currentCount e ev w = Num 0" if "cache_get_fails e (rateKey ev)"
    using that by (simp add: currentCount_def cache_get_def)
  have untouched: "cache_set e (rateKey ev) d t w = w" if "cache_put_fails e (rateKey ev)" for d t
    using that by (simp add: cache_set_def split: number.splits)
  show ?thesis
  proof (intro conjI impI)
    assume "cache_get_fails e (rateKey ev) \<and> \<not> num_ge (Num 0) (envRequestsLimit options e)"
    then show "\<exists>w'. rateLimiter options handler ev e w = handler ev e w'"
      using pass down by simp
  next
    assume a: "cache_get_fails e (rateKey ev) \<and> cache_put_fails e (rateKey ev)
          \<and> \<not> num_ge (Num 0) (envRequestsLimit options e)
          \<and> handler ev e w = (Inr r, w2)"
    then have "\<not> num_ge (currentCount e ev w) (envRequestsLimit options e)"
      using down by simp
    then show "rateLimiter options handler ev e w = (Inr r, w2)"
      using a by (simp add: rateLimiter_pass untouched)
  next
    assume "currentCount e ev w = NaN"
    then show "\<exists>w'. rateLimiter options handler ev e w = handler ev e w'"
      using pass by simp
  next
    assume "\<not> num_ge (currentCount e ev w) (envRequestsLimit options e)"
    then show "\<exists>w'. rateLimiter options handler ev e w = handler ev e w'"
      by (rule pass)
  qed
qed

theorem rate_limiter_fails_open_witness:
  "cache_get_fails env_store_down (rateKey ev0)
   \<and> cache_put_fails env_store_down (rateKey ev0)
   \<and> \<not> num_ge (Num 0) (envRequestsLimit limit100 env_store_down)
   \<and> rateLimiter limit100 ok_handler ev0 env_store_down world0
       = ok_handler ev0 env_store_down world0
   \<and> currentCount env0 ev0 world_bad_counter = NaN
   \<and> \<not> num_ge (currentCount env0 ev0 world_bad_counter) (envRequestsLimit limit100 env0)
   \<and> (\<exists>w'. rateLimiter limit100 ok_handler ev0 env0 world_bad_counter
              = ok_handler ev0 env0 w')"
proof -
  have key: "rateKey ev0 = ''rate_limit:10.0.0.7:GET:/fusion''"
    by (simp add: rateKey_def clientIp_def or_str_def ev0_def)
  have down: "cache_get_fails env_store_down (rateKey ev0)"
    "cache_put_fails env_store_down (rateKey ev0)"
    by (simp_all add: env_store_down_def)
  have lim: "envRequestsLimit limit100 env_store_down = Num 100"
    "envRequestsLimit limit100 env0 = Num 100"
    by (simp_all add: envRequestsLimit_def env_or_def option_or_default_def or_num_def
          limit100_def env_store_down_def env0_def)
  have nan: "currentCount env0 ev0 world_bad_counter = NaN"
    by (simp add: currentCount_def key cache_get_def env0_def world_bad_counter_def
          parseInt_def readSign_def skipWhiteSpace.simps whiteSpacePrefix_def is_ws3_def
  isDigitIn_def digitVal_def round_to_double_def)
  have ok: "ok_handler ev0 env_store_down world0
              = (Inr (success env_store_down (Prim (JStr ''ok'')) (requestId ev0) False []),
                 world0\<lparr>calls := calls world0 @ [GetPeople ''handler-ran'']\<rparr>)"
    by (simp add: ok_handler_def)
  note f = rate_limiter_fails_open [where handler = ok_handler and options = limit100]
  have a: "rateLimiter limit100 ok_handler ev0 env_store_down world0
             = ok_handler ev0 env_store_down world0"
    using f [of env_store_down ev0 world0] down lim ok by simp
  have b: "\<exists>w'. rateLimiter limit100 ok_handler ev0 env0 world_bad_counter
              = ok_handler ev0 env0 w'"
    using f [of env0 ev0 world_bad_counter] nan by simp
  show ?thesis
    using a b down lim nan by simp
qed

section \<open>Properties of the history handler\<close>

lemmas history_defs =
  history_handler_def getHistory_def history_limit_def history_source_def history_time_def
  query_param_def parseInt_def readSign_def skipWhiteSpace.simps whiteSpacePrefix_def
  is_ws3_def isDigitIn_def digitVal_def round_to_double_def bit_length.simps
  MAX_SAFE_INTEGER_def toISOString_fails_def
  or_str_def MAX_PAGE_SIZE_def badRequest_def internalError_def success_def envelope_meta_def

lemma history_source_nonempty: "history_source ev \<noteq> []"
  by (simp add: history_source_def or_str_def split: option.splits)

text \<open>
  Claim C9 as stated fails: the query \<open>limit=2.5&source=&startTime=5&endTime=0\<close> has a
  limit that is not an integer, a source outside the three values and a start time
  after its end time, and is not rejected: \<open>parseInt\<close> reads the limit as 2, the empty
  source defaults to \<open>all\<close>, the end time 0 is falsy and skips the range test, and the
  scan is issued.
\<close>

theorem inverted_range_with_zero_end_is_queried:
  "query_param ev_history ''limit'' = Some ''2.5''
   \<and> query_param ev_history ''source'' = Some []
   \<and> query_param ev_history ''startTime'' = Some ''5''
   \<and> query_param ev_history ''endTime'' = Some ''0''
   \<and> statusCode (fst (history_handler ev_history env0 world0)) = 200
   \<and> calls (snd (history_handler ev_history env0 world0)) =
       [ScanHistory \<lparr>hq_limit = 2, hq_lastEvaluatedKey = None, hq_source = ''all'',
                     hq_startTime = Some (Num 5), hq_endTime = Some (Num 0)\<rparr>]"
  by (simp add: history_defs ev_history_def env0_def world0_def empty_page_def Let_def)

text \<open>
  Claim C9, amended. The handler rejects with 400, before any store query and
  leaving the world untouched, exactly the queries whose parsed limit is \<open>NaN\<close> or
  below 1 (an absent or empty limit is 10, text after the leading digits is ignored),
  whose source, defaulting to \<open>all\<close> when absent or empty, is outside
  \<open>fusion\<close>, \<open>custom\<close>, \<open>all\<close>, or whose start and end times, parsed to JavaScript
  numbers, are both non-zero with start greater than end. Every other query is
  handed to the history service and is never answered 400: the scan is sent when
  the time filters can be marshalled, and a time filter beyond the safe integers is
  answered 500 without any store query.
\<close>

theorem history_validation:
  "(history_invalid ev \<longrightarrow>
      (\<exists>message. fst (history_handler ev e w) =
         \<lparr>statusCode = 400,
          body = ErrorBody ''BAD_REQUEST'' message (envelope_meta e (requestId ev))\<rparr>)
      \<and> snd (history_handler ev e w) = w)
   \<and> (\<not> history_invalid ev \<and> history_times_marshallable ev \<longrightarrow>
      statusCode (fst (history_handler ev e w)) \<noteq> 400
      \<and> calls (snd (history_handler ev e w)) =
        calls w @
        [ScanHistory
           \<lparr>hq_limit = history_limit ev,
            hq_lastEvaluatedKey = (case query_param ev ''cursor'' of
                                     None \<Rightarrow> None
                                   | Some c \<Rightarrow> if c = [] then None else Some c),
            hq_source = history_source ev,
            hq_startTime = history_time ev ''startTime'',
            hq_endTime = history_time ev ''endTime''\<rparr>])
   \<and> (\<not> history_invalid ev \<and> \<not> history_times_marshallable ev \<longrightarrow>
      history_handler ev e w =
        (\<lparr>statusCode = 500,
          body = ErrorBody ''INTERNAL_ERROR'' ''Failed to retrieve history''
                   (envelope_meta e (requestId ev))\<rparr>,
         w))"
proof -
  have p1: "(\<exists>message. fst (history_handler ev e w) =
         \<lparr>statusCode = 400,
          body = ErrorBody ''BAD_REQUEST'' message (envelope_meta e (requestId ev))\<rparr>)
      \<and> snd (history_handler ev e w) = w"
    if "history_invalid ev"
    using that history_source_nonempty [of ev]
    by (auto simp: history_invalid_def history_handler_def Let_def badRequest_def)
  have p2: "statusCode (fst (history_handler ev e w)) \<noteq> 400
      \<and> calls (snd (history_handler ev e w)) =
        calls w @
        [ScanHistory
           \<lparr>hq_limit = history_limit ev,
            hq_lastEvaluatedKey = (case query_param ev ''cursor'' of
                                     None \<Rightarrow> None
                                   | Some c \<Rightarrow> if c = [] then None else Some c),
            hq_source = history_source ev,
            hq_startTime = history_time ev ''startTime'',
            hq_endTime = history_time ev ''endTime''\<rparr>]"
    if a: "\<not> history_invalid ev \<and> history_times_marshallable ev"
  proof -
  from a have g: "getHistory e
           \<lparr>hq_limit = history_limit ev,
            hq_lastEvaluatedKey = (case query_param ev ''cursor'' of
                                     None \<Rightarrow> None
                                   | Some c \<Rightarrow> if c = [] then None else Some c),
            hq_source = history_source ev,
            hq_startTime = history_time ev ''startTime'',
            hq_endTime = history_time ev ''endTime''\<rparr> w
         = (db_scan e \<lparr>hq_limit = history_limit ev,
            hq_lastEvaluatedKey = (case query_param ev ''cursor'' of
                                     None \<Rightarrow> None
                                   | Some c \<Rightarrow> if c = [] then None else Some c),
            hq_source = history_source ev,
            hq_startTime = history_time ev ''startTime'',
            hq_endTime = history_time ev ''endTime''\<rparr>,
            w\<lparr>calls := calls w @ [ScanHistory \<lparr>hq_limit = history_limit ev,
            hq_lastEvaluatedKey = (case query_param ev ''cursor'' of
                                     None \<Rightarrow> None
                                   | Some c \<Rightarrow> if c = [] then None else Some c),
            hq_source = history_source ev,
            hq_startTime = history_time ev ''startTime'',
            hq_endTime = history_time ev ''endTime''\<rparr>]\<rparr>)"
    by (simp add: getHistory_def history_times_marshallable_def)
  from a have v: "\<not> history_limit ev < 1"
    "history_source ev \<in> set [''fusion'', ''custom'', ''all'']"
    "\<not> (truthy_opt (history_time ev ''startTime'') \<and> truthy_opt (history_time ev ''endTime'')
        \<and> opt_gt (history_time ev ''startTime'') (history_time ev ''endTime''))"
    by (auto simp: history_invalid_def)
  show "statusCode (fst (history_handler ev e w)) \<noteq> 400
      \<and> calls (snd (history_handler ev e w)) =
        calls w @
        [ScanHistory
           \<lparr>hq_limit = history_limit ev,
            hq_lastEvaluatedKey = (case query_param ev ''cursor'' of
                                     None \<Rightarrow> None
                                   | Some c \<Rightarrow> if c = [] then None else Some c),
            hq_source = history_source ev,
            hq_startTime = history_time ev ''startTime'',
            hq_endTime = history_time ev ''endTime''\<rparr>]"
    using v
    by (simp add: history_handler_def Let_def g internalError_def success_def
        split: sum.splits)
  qed
  have p3: "history_handler ev e w =
        (\<lparr>statusCode = 500,
          body = ErrorBody ''INTERNAL_ERROR'' ''Failed to retrieve history''
                   (envelope_meta e (requestId ev))\<rparr>,
         w)"
    if a: "\<not> history_invalid ev \<and> \<not> history_times_marshallable ev"
  proof -
  from a have g: "getHistory e
           \<lparr>hq_limit = history_limit ev,
            hq_lastEvaluatedKey = (case query_param ev ''cursor'' of
                                     None \<Rightarrow> None
                                   | Some c \<Rightarrow> if c = [] then None else Some c),
            hq_source = history_source ev,
            hq_startTime = history_time ev ''startTime'',
            hq_endTime = history_time ev ''endTime''\<rparr> w
         = (Inl ''marshall failed'', w)"
    by (simp add: getHistory_def history_times_marshallable_def)
  from a have v: "\<not> history_limit ev < 1"
    "history_source ev \<in> set [''fusion'', ''custom'', ''all'']"
    "\<not> (truthy_opt (history_time ev ''startTime'') \<and> truthy_opt (history_time ev ''endTime'')
        \<and> opt_gt (history_time ev ''startTime'') (history_time ev ''endTime''))"
    by (auto simp: history_invalid_def)
  show "history_handler ev e w =
        (\<lparr>statusCode = 500,
          body = ErrorBody ''INTERNAL_ERROR'' ''Failed to retrieve history''
                   (envelope_meta e (requestId ev))\<rparr>,
         w)"
    using v by (auto simp: history_handler_def Let_def g internalError_def)
  qed
  show ?thesis
    using p1 p2 p3 by blast
qed

theorem history_validation_witness:
  "history_invalid ev_bad_limit
   \<and> fst (history_handler ev_bad_limit env0 world0) =
       \<lparr>statusCode = 400,
        body = ErrorBody ''BAD_REQUEST'' ''Limit must be a positive integer''
                 (envelope_meta env0 ''r-2'')\<rparr>
   \<and> snd (history_handler ev_bad_limit env0 world0) = world0
   \<and> history_invalid ev_bad_source
   \<and> snd (history_handler ev_bad_source env0 world0) = world0
   \<and> history_invalid ev_bad_range
   \<and> snd (history_handler ev_bad_range env0 world0) = world0
   \<and> \<not> history_invalid ev_history
   \<and> history_times_marshallable ev_history
   \<and> calls (snd (history_handler ev_history env0 world0)) =
       [ScanHistory \<lparr>hq_limit = 2, hq_lastEvaluatedKey = None, hq_source = ''all'',
                     hq_startTime = Some (Num 5), hq_endTime = Some (Num 0)\<rparr>]
   \<and> history_limit ev_padded_limit = 7
   \<and> \<not> history_invalid ev_padded_limit
   \<and> history_times_marshallable ev_padded_limit
   \<and> statusCode (fst (history_handler ev_padded_limit env0 world0)) \<noteq> 400
   \<and> history_time ev_rounded_range ''startTime'' = Some (Num 9007199254740992)
   \<and> history_time ev_rounded_range ''endTime'' = Some (Num 9007199254740992)
   \<and> \<not> history_invalid ev_rounded_range
   \<and> \<not> history_times_marshallable ev_rounded_range
   \<and> history_handler ev_rounded_range env0 world0 =
       (\<lparr>statusCode = 500,
         body = ErrorBody ''INTERNAL_ERROR'' ''Failed to retrieve history''
                  (envelope_meta env0 ''r-2'')\<rparr>,
        world0)"
proof -
  have i1: "history_invalid ev_bad_limit"
    by (simp add: history_invalid_def history_defs ev_bad_limit_def ev_history_def)
  have i2: "history_invalid ev_bad_source"
    by (simp add: history_invalid_def history_defs ev_bad_source_def ev_history_def)
  have i3: "history_invalid ev_bad_range"
    by (simp add: history_invalid_def history_defs ev_bad_range_def ev_history_def)
  have i4: "\<not> history_invalid ev_history" "history_times_marshallable ev_history"
    by (simp_all add: history_invalid_def history_times_marshallable_def history_defs
          ev_history_def)
  have l5: "history_limit ev_padded_limit = 7"
    by (simp add: history_defs ev_padded_limit_def ev_history_def)
  have i5: "\<not> history_invalid ev_padded_limit" "history_times_marshallable ev_padded_limit"
    by (simp_all add: history_invalid_def history_times_marshallable_def history_defs
          ev_padded_limit_def ev_history_def)
  have t6: "history_time ev_rounded_range ''startTime'' = Some (Num 9007199254740992)"
    "history_time ev_rounded_range ''endTime'' = Some (Num 9007199254740992)"
    by (simp_all add: history_defs ev_rounded_range_def ev_history_def)
  have l6: "history_limit ev_rounded_range = 10" "history_source ev_rounded_range = ''all''"
    by (simp_all add: history_defs ev_rounded_range_def ev_history_def)
  have i6: "\<not> history_invalid ev_rounded_range" "\<not> history_times_marshallable ev_rounded_range"
    by (simp_all add: history_invalid_def history_times_marshallable_def t6 l6
          MAX_SAFE_INTEGER_def)
  have v: "history_limit ev_history = 2" "history_source ev_history = ''all''"
    "history_time ev_history ''startTime'' = Some (Num 5)"
    "history_time ev_history ''endTime'' = Some (Num 0)"
    "query_param ev_history ''cursor'' = None"
    "calls world0 = []"
    by (simp_all add: history_defs ev_history_def world0_def)
  have r: "requestId ev_bad_limit = ''r-2''" "requestId ev_rounded_range = ''r-2''"
    by (simp_all add: ev_bad_limit_def ev_rounded_range_def ev_history_def)
  have m: "fst (history_handler ev_bad_limit env0 world0) =
       \<lparr>statusCode = 400,
        body = ErrorBody ''BAD_REQUEST'' ''Limit must be a positive integer''
                 (envelope_meta env0 ''r-2'')\<rparr>"
    by (simp add: history_defs ev_bad_limit_def ev_history_def Let_def)
  show ?thesis
    using history_validation [of ev_bad_limit env0 world0]
      history_validation [of ev_bad_source env0 world0]
      history_validation [of ev_bad_range env0 world0]
      history_validation [of ev_history env0 world0]
      history_validation [of ev_padded_limit env0 world0]
      history_validation [of ev_rounded_range env0 world0]
      i1 i2 i3 i4 i5 i6 l5 t6 m
    by (simp add: v r)
qed

end
